theory Spec2Isabelle
  imports Complex_Main "HOL-Library.Sublist" "HOL-Library.List_Lexorder" "HOL-Library.Log_Nat"
begin

section \<open>Text\<close>

text \<open>
  A Python \<open>str\<close> is a sequence of Unicode code points. Text is modelled as the list of
  its code points, so that the euro sign (U+20AC) and the other non-ASCII characters of
  the program are single elements, as they are in Python. \<open>lit\<close> turns an ASCII literal
  into text.
\<close>

type_synonym pystr = "nat list"

definition lit :: "string \<Rightarrow> pystr" where
  "lit s = map of_char s"

text \<open>Python's \<open>s[a:b]\<close> for indices \<open>0 \<le> a\<close>, \<open>0 \<le> b\<close> (out-of-range indices are clipped).\<close>

definition slice :: "pystr \<Rightarrow> nat \<Rightarrow> nat \<Rightarrow> pystr" where
  "slice s a b = take (b - a) (drop a s)"

section \<open>Regular expressions of the \<open>re\<close> module\<close>

text \<open>
  The character classes \<open>\d\<close> and \<open>\w\<close> of a \<open>str\<close> pattern follow the Unicode database
  of the interpreter: \<open>\d\<close> is a decimal digit, \<open>\w\<close> is an alphanumeric character or
  the underscore. The database is not part of the repository; its two predicates are a
  parameter, used for code points beyond ASCII only.
\<close>

record unicode_db =
  uni_decimal :: "nat \<Rightarrow> bool"
  uni_alnum :: "nat \<Rightarrow> bool"

definition is_digit :: "unicode_db \<Rightarrow> nat \<Rightarrow> bool" where
  "is_digit U c = (if c < 128 then 48 \<le> c \<and> c \<le> 57 else uni_decimal U c)"

definition is_word :: "unicode_db \<Rightarrow> nat \<Rightarrow> bool" where
  "is_word U c =
     (if c < 128 then (48 \<le> c \<and> c \<le> 57) \<or> (65 \<le> c \<and> c \<le> 90) \<or> (97 \<le> c \<and> c \<le> 122) \<or> c = 95
      else uni_alnum U c \<or> uni_decimal U c)"

datatype cls =
    CLit nat          \<comment> \<open>one literal character\<close>
  | CSet "nat list"   \<comment> \<open>\<open>[...]\<close>\<close>
  | CNot "nat list"   \<comment> \<open>\<open>[^...]\<close>\<close>
  | CDigit            \<comment> \<open>\<open>\d\<close>\<close>

fun cls_ok :: "unicode_db \<Rightarrow> cls \<Rightarrow> nat \<Rightarrow> bool" where
  "cls_ok U (CLit a) c = (c = a)"
| "cls_ok U (CSet as) c = (c \<in> set as)"
| "cls_ok U (CNot as) c = (c \<notin> set as)"
| "cls_ok U CDigit c = is_digit U c"

datatype re =
    Atom cls        \<comment> \<open>one character of the class\<close>
  | Rep1 cls        \<comment> \<open>\<open>c+\<close>, greedy\<close>
  | WordB           \<comment> \<open>\<open>\b\<close>\<close>
  | Seq re re
  | Opt re          \<comment> \<open>\<open>r?\<close>, greedy\<close>
  | Grp re          \<comment> \<open>the capturing group \<open>(r)\<close>\<close>

text \<open>\<open>\b\<close>: exactly one of the characters before and after the position is a word character.\<close>

definition word_at :: "unicode_db \<Rightarrow> pystr \<Rightarrow> nat \<Rightarrow> bool" where
  "word_at U s i = (i < length s \<and> is_word U (s ! i))"

definition boundary :: "unicode_db \<Rightarrow> pystr \<Rightarrow> nat \<Rightarrow> bool" where
  "boundary U s i = ((0 < i \<and> word_at U s (i - 1)) \<noteq> word_at U s i)"

text \<open>
  The backtracking matcher. A state is the current position and the span of the capturing
  group, if it has matched. \<open>rmatch\<close> lists the states the engine can reach at the end of
  the expression, in the order in which it tries them: the greedy choice first.
\<close>

type_synonym mstate = "nat \<times> (nat \<times> nat) option"

fun rmatch :: "unicode_db \<Rightarrow> re \<Rightarrow> pystr \<Rightarrow> mstate \<Rightarrow> mstate list" where
  "rmatch U (Atom c) s (i, g) =
     (if i < length s \<and> cls_ok U c (s ! i) then [(Suc i, g)] else [])"
| "rmatch U (Rep1 c) s (i, g) =
     map (\<lambda>j. (j, g)) (rev [Suc i ..< Suc (i + length (takeWhile (cls_ok U c) (drop i s)))])"
| "rmatch U WordB s (i, g) = (if boundary U s i then [(i, g)] else [])"
| "rmatch U (Seq a b) s st = concat (map (rmatch U b s) (rmatch U a s st))"
| "rmatch U (Opt a) s st = rmatch U a s st @ [st]"
| "rmatch U (Grp a) s (i, g) = map (\<lambda>(j, _). (j, Some (i, j))) (rmatch U a s (i, g))"

text \<open>
  \<open>re.finditer\<close>: the leftmost match from the current position, then the search goes on
  at its end (one character further after an empty match). A match is its start, its end
  and the span of the group.
\<close>

type_synonym rematch = "nat \<times> nat \<times> (nat \<times> nat) option"

function finditer_from :: "unicode_db \<Rightarrow> re \<Rightarrow> pystr \<Rightarrow> nat \<Rightarrow> rematch list" where
  "finditer_from U r s i =
     (if length s < i then []
      else (case rmatch U r s (i, None) of
              [] \<Rightarrow> finditer_from U r s (Suc i)
            | (e, g) # _ \<Rightarrow> (i, e, g) # finditer_from U r s (if i < e then e else Suc i)))"
  by pat_completeness auto
termination
  by (relation "measure (\<lambda>(U, r, s, i). Suc (length s) - i)") auto

definition finditer :: "unicode_db \<Rightarrow> re \<Rightarrow> pystr \<Rightarrow> rematch list" where
  "finditer U r s = finditer_from U r s 0"

text \<open>\<open>re.findall\<close> with a pattern of one group: the text of the group of every match.\<close>

definition group1 :: "pystr \<Rightarrow> rematch \<Rightarrow> pystr" where
  "group1 s m = (case snd (snd m) of None \<Rightarrow> [] | Some (a, b) \<Rightarrow> slice s a b)"

definition findall :: "unicode_db \<Rightarrow> re \<Rightarrow> pystr \<Rightarrow> pystr list" where
  "findall U r s = map (group1 s) (finditer U r s)"

fun seqs :: "re list \<Rightarrow> re" where
  "seqs [] = Opt (Atom (CSet []))"
| "seqs [r] = r"
| "seqs (r # rs) = Seq r (seqs rs)"

definition lits :: "string \<Rightarrow> re" where
  "lits s = seqs (map (\<lambda>c. Atom (CLit (of_char c))) s)"

section \<open>Tables\<close>

text \<open>
  A value of a cell, as \<open>DataFrame.rows\<close> hands it to Python: \<open>None\<close>, a \<open>bool\<close>, an
  \<open>int\<close>, a finite \<open>float\<close> (given by its exact value) or a \<open>str\<close>.
\<close>

datatype cell = PNone | PBool bool | PInt int | PFloat rat | PStr pystr

text \<open>A \<open>pl.DataFrame\<close>: the column names in order, and the rows, each aligned with them.\<close>

record table =
  columns :: "pystr list"
  rows :: "cell list list"

definition empty_frame :: table where
  \<comment> \<open>\<open>pl.DataFrame()\<close>\<close>
  "empty_frame = \<lparr>columns = [], rows = []\<rparr>"

definition is_empty :: "table \<Rightarrow> bool" where
  \<comment> \<open>\<open>df.is_empty()\<close>: the frame has no row\<close>
  "is_empty df = (rows df = [])"

definition head :: "nat \<Rightarrow> table \<Rightarrow> table" where
  \<comment> \<open>\<open>df.head(n)\<close>\<close>
  "head n df = df\<lparr>rows := take n (rows df)\<rparr>"

section \<open>Column resolution (app.py)\<close>

definition NAME_COLS :: "pystr list" where
  "NAME_COLS = [lit ''boat_name'', lit ''Nome della barca'', lit ''boatName'', lit ''name'', lit ''title'']"

definition PRICE_COLS :: "pystr list" where
  "PRICE_COLS = [lit ''price'', lit ''Price'', lit ''prezzo'', lit ''cost'']"

definition YEAR_COLS :: "pystr list" where
  "YEAR_COLS = [lit ''year'', lit ''Year'', lit ''anno'', lit ''build_year'', lit ''construction_year'']"

definition quotes :: "nat list" where
  \<comment> \<open>the characters \<open>'\<close> and \<open>"\<close>\<close>
  "quotes = [39, 34]"

definition col_pattern :: re where
  \<comment> \<open>\<open>pl\.col\( ?['\"]([^'\"]+)['\"] ?\)\<close>\<close>
  "col_pattern =
     seqs [lits ''pl.col('', Opt (Atom (CLit 32)), Atom (CSet quotes),
           Grp (Rep1 (CNot quotes)), Atom (CSet quotes), Opt (Atom (CLit 32)), lits '')'']"

definition index_pattern :: re where
  \<comment> \<open>\<open>df\[ ?['\"]([^'\"]+)['\"] ?\]\<close>\<close>
  "index_pattern =
     seqs [lits ''df['', Opt (Atom (CLit 32)), Atom (CSet quotes),
           Grp (Rep1 (CNot quotes)), Atom (CSet quotes), Opt (Atom (CLit 32)), lits '']'']"

text \<open>
  \<open>extract_cols\<close> collects the identifiers in a Python set and returns \<open>list(cols)\<close>. The
  order in which a set is listed is not specified by Python; it is the parameter
  \<open>listing\<close>.
\<close>

definition extract_cols_set :: "unicode_db \<Rightarrow> pystr \<Rightarrow> pystr set" where
  "extract_cols_set U expr =
     (let cols = {};
          cols = cols \<union> set (findall U col_pattern expr);
          cols = cols \<union> set (findall U index_pattern expr)
      in cols)"

definition extract_cols :: "(pystr set \<Rightarrow> pystr list) \<Rightarrow> unicode_db \<Rightarrow> pystr \<Rightarrow> pystr list" where
  "extract_cols listing U expr = listing (extract_cols_set U expr)"

text \<open>\<open>next((c for c in group if c in df.columns), None)\<close>\<close>

definition first_present :: "pystr list \<Rightarrow> table \<Rightarrow> pystr option" where
  "first_present aliases df = find (\<lambda>c. c \<in> set (columns df)) aliases"

text \<open>The truth value of \<open>None\<close> or a \<open>str\<close>: false for \<open>None\<close> and for the empty string.\<close>

fun truthy :: "pystr option \<Rightarrow> bool" where
  "truthy None = False"
| "truthy (Some s) = (s \<noteq> [])"

definition add_col :: "table \<Rightarrow> pystr list \<Rightarrow> pystr \<Rightarrow> pystr list" where
  \<comment> \<open>one round of the loop over \<open>query_cols\<close>\<close>
  "add_col df display_cols col =
     (if col \<in> set (columns df) \<and> col \<notin> set display_cols then display_cols @ [col]
      else display_cols)"

definition get_display_columns :: "table \<Rightarrow> pystr list \<Rightarrow> pystr list" where
  "get_display_columns df query_cols =
     (let display_cols = [];
          name_col = first_present NAME_COLS df;
          price_col = first_present PRICE_COLS df;
          year_col = first_present YEAR_COLS df;
          display_cols = (if truthy name_col then display_cols @ [the name_col] else display_cols);
          display_cols = (if truthy price_col \<and> the price_col \<notin> set display_cols
                          then display_cols @ [the price_col] else display_cols);
          display_cols = (if truthy year_col \<and> the year_col \<notin> set display_cols
                          then display_cols @ [the year_col] else display_cols)
      in foldl (add_col df) display_cols query_cols)"

section \<open>Column resolution (filters3.py)\<close>

definition f3_NAME_COLS :: "pystr list" where
  "f3_NAME_COLS = [lit ''boat_name'', lit ''Nome della barca'', lit ''boatName'', lit ''name'', lit ''title'']"

definition f3_PRICE_COLS :: "pystr list" where
  "f3_PRICE_COLS = [lit ''price'', lit ''Price'', lit ''prezzo'', lit ''cost'']"

definition f3_YEAR_COLS :: "pystr list" where
  "f3_YEAR_COLS = [lit ''year'', lit ''Year'', lit ''anno'', lit ''build_year'', lit ''construction_year'']"

definition f3_col_pattern :: re where
  \<comment> \<open>\<open>pl\.col\( ?['\"]([^'\"]+)['\"] ?\)\<close>\<close>
  "f3_col_pattern =
     seqs [lits ''pl.col('', Opt (Atom (CLit 32)), Atom (CSet quotes),
           Grp (Rep1 (CNot quotes)), Atom (CSet quotes), Opt (Atom (CLit 32)), lits '')'']"

definition f3_index_pattern :: re where
  \<comment> \<open>\<open>df\[ ?['\"]([^'\"]+)['\"] ?\]\<close>\<close>
  "f3_index_pattern =
     seqs [lits ''df['', Opt (Atom (CLit 32)), Atom (CSet quotes),
           Grp (Rep1 (CNot quotes)), Atom (CSet quotes), Opt (Atom (CLit 32)), lits '']'']"

definition f3_extract_cols_set :: "unicode_db \<Rightarrow> pystr \<Rightarrow> pystr set" where
  "f3_extract_cols_set U expr =
     (let cols = {};
          cols = cols \<union> set (findall U f3_col_pattern expr);
          cols = cols \<union> set (findall U f3_index_pattern expr)
      in cols)"

definition f3_extract_cols :: "(pystr set \<Rightarrow> pystr list) \<Rightarrow> unicode_db \<Rightarrow> pystr \<Rightarrow> pystr list" where
  "f3_extract_cols listing U expr = listing (f3_extract_cols_set U expr)"

definition f3_get_display_columns :: "table \<Rightarrow> pystr list \<Rightarrow> pystr list" where
  "f3_get_display_columns df query_cols =
     (let display_cols = [];
          name_col = find (\<lambda>c. c \<in> set (columns df)) f3_NAME_COLS;
          price_col = find (\<lambda>c. c \<in> set (columns df)) f3_PRICE_COLS;
          year_col = find (\<lambda>c. c \<in> set (columns df)) f3_YEAR_COLS;
          display_cols = (if truthy name_col then display_cols @ [the name_col] else display_cols);
          display_cols = (if truthy price_col \<and> the price_col \<notin> set display_cols
                          then display_cols @ [the price_col] else display_cols);
          display_cols = (if truthy year_col \<and> the year_col \<notin> set display_cols
                          then display_cols @ [the year_col] else display_cols)
      in foldl (\<lambda>display_cols col.
                  if col \<in> set (columns df) \<and> col \<notin> set display_cols then display_cols @ [col]
                  else display_cols) display_cols query_cols)"

section \<open>The display plan, as the specification words it\<close>

text \<open>The first occurrence of every element, in order.\<close>

fun first_occurrences :: "'a list \<Rightarrow> 'a list" where
  "first_occurrences [] = []"
| "first_occurrences (x # xs) = x # first_occurrences (filter (\<lambda>y. y \<noteq> x) xs)"

definition first_alias :: "pystr list \<Rightarrow> pystr list \<Rightarrow> pystr list" where
  \<comment> \<open>the first alias of the group that is a column of the result, if there is one\<close>
  "first_alias aliases result_columns =
     (case find (\<lambda>c. c \<in> set result_columns) aliases of None \<Rightarrow> [] | Some c \<Rightarrow> [c])"

definition display_plan :: "pystr list \<Rightarrow> pystr list \<Rightarrow> pystr list" where
  "display_plan result_columns extracted =
     (let name = first_alias NAME_COLS result_columns;
          price = filter (\<lambda>c. c \<notin> set name) (first_alias PRICE_COLS result_columns);
          year = filter (\<lambda>c. c \<notin> set (name @ price)) (first_alias YEAR_COLS result_columns);
          others = first_occurrences
                     (filter (\<lambda>c. c \<in> set result_columns \<and> c \<notin> set (name @ price @ year)) extracted)
      in name @ price @ year @ others)"

section \<open>Numeric spans (app.py)\<close>

definition number_pattern :: re where
  \<comment> \<open>\<open>\b\d+(?:[.,]\d+)?\b\<close>\<close>
  "number_pattern =
     seqs [WordB, Rep1 CDigit, Opt (Seq (Atom (CSet (lit ''.,''))) (Rep1 CDigit)), WordB]"

definition extract_number_spans :: "unicode_db \<Rightarrow> pystr \<Rightarrow> (pystr \<times> nat \<times> nat) list" where
  "extract_number_spans U txt =
     map (\<lambda>(start, stop, _). (slice txt start stop, start, stop)) (finditer U number_pattern txt)"

text \<open>
  The rewriting loop of \<open>main\<close>:
  \<^verbatim>\<open>for (num, start, end), new_val in zip(reversed(numbers), reversed(new_vals)):
    updated_query = updated_query[:start] + new_val + updated_query[end:]\<close>
\<close>

definition rewrite_step :: "pystr \<Rightarrow> (pystr \<times> nat \<times> nat) \<times> pystr \<Rightarrow> pystr" where
  "rewrite_step updated_query x =
     (case x of ((num, start, stop), new_val) \<Rightarrow>
        take start updated_query @ new_val @ drop stop updated_query)"

definition rewrite_numbers :: "pystr \<Rightarrow> (pystr \<times> nat \<times> nat) list \<Rightarrow> pystr list \<Rightarrow> pystr" where
  "rewrite_numbers query_input numbers new_vals =
     foldl rewrite_step query_input (zip (rev numbers) (rev new_vals))"

section \<open>Python strings and numbers\<close>

text \<open>The characters for which \<open>str.isspace\<close> holds; \<open>str.strip()\<close> removes them at both ends.\<close>

definition whitespace :: "nat list" where
  "whitespace =
     [9, 10, 11, 12, 13, 28, 29, 30, 31, 32, 133, 160, 5760,
      8192, 8193, 8194, 8195, 8196, 8197, 8198, 8199, 8200, 8201, 8202,
      8232, 8233, 8239, 8287, 12288]"

definition strip_chars :: "nat list \<Rightarrow> pystr \<Rightarrow> pystr" where
  \<comment> \<open>\<open>s.strip(chars)\<close>\<close>
  "strip_chars chars s =
     rev (dropWhile (\<lambda>c. c \<in> set chars) (rev (dropWhile (\<lambda>c. c \<in> set chars) s)))"

definition strip :: "pystr \<Rightarrow> pystr" where
  \<comment> \<open>\<open>s.strip()\<close>\<close>
  "strip s = strip_chars whitespace s"

definition startswith :: "pystr \<Rightarrow> pystr \<Rightarrow> bool" where
  "startswith s p = (take (length p) s = p)"

definition removeprefix :: "pystr \<Rightarrow> pystr \<Rightarrow> pystr" where
  "removeprefix s p = (if startswith s p then drop (length p) s else s)"

text \<open>\<open>str(n)\<close> for an \<open>int\<close>: its decimal digits.\<close>

function digits :: "int \<Rightarrow> pystr" where
  "digits n = (if n < 10 then [48 + nat n] else digits (n div 10) @ [48 + nat (n mod 10)])"
  by pat_completeness auto
termination
  by (relation "measure nat") auto

definition str_int :: "int \<Rightarrow> pystr" where
  "str_int i = (if i < 0 then lit ''-'' @ digits (- i) else digits i)"

text \<open>
  A finite \<open>float\<close> is given by its exact value, a rational number. \<open>to_double\<close> rounds a
  rational number to the nearest binary64 number, ties to the even significand (the
  rounding of Python's \<open>int / int\<close>, \<open>float / float\<close> and \<open>float(int)\<close>). A result beyond
  the largest float makes the conversion or the division of an \<open>int\<close> raise
  \<open>OverflowError\<close>. Infinities, NaN and the sign of zero are not modelled.
\<close>

datatype pyerror = OverflowError pystr    \<comment> \<open>with its message\<close>

definition round_half_even :: "rat \<Rightarrow> int" where
  "round_half_even r =
     (let f = \<lfloor>r\<rfloor>; d = r - of_int f
      in if d < 1 / 2 then f else if 1 / 2 < d then f + 1 else if even f then f else f + 1)"

definition pow2 :: "int \<Rightarrow> rat" where
  "pow2 e = (if 0 \<le> e then 2 ^ nat e else 1 / 2 ^ nat (- e))"

definition binade :: "rat \<Rightarrow> int" where
  \<comment> \<open>for \<open>0 < a\<close>, the exponent \<open>e\<close> with \<open>2 ^ e \<le> a < 2 ^ (e + 1)\<close>\<close>
  "binade a = (if 1 \<le> a then bitlen \<lfloor>a\<rfloor> - 1 else - bitlen (\<lceil>1 / a\<rceil> - 1))"

definition to_double :: "rat \<Rightarrow> rat" where
  "to_double r =
     (if r = 0 then 0
      else let ulp = pow2 (max (binade \<bar>r\<bar>) (- 1022) - 52)
           in sgn r * of_int (round_half_even (\<bar>r\<bar> / ulp)) * ulp)"

definition overflows :: "rat \<Rightarrow> bool" where
  "overflows r = (2 ^ 1024 \<le> \<bar>to_double r\<bar>)"

text \<open>The numeric value of a \<open>bool\<close>, an \<open>int\<close> or a \<open>float\<close>.\<close>

fun is_number :: "cell \<Rightarrow> bool" where
  \<comment> \<open>\<open>isinstance(value, (int, float))\<close>; \<open>bool\<close> is a subclass of \<open>int\<close>\<close>
  "is_number (PBool _) = True"
| "is_number (PInt _) = True"
| "is_number (PFloat _) = True"
| "is_number _ = False"

fun num :: "cell \<Rightarrow> rat" where
  "num (PBool b) = (if b then 1 else 0)"
| "num (PInt i) = of_int i"
| "num (PFloat x) = x"
| "num _ = 0"

fun is_float :: "cell \<Rightarrow> bool" where
  "is_float (PFloat _) = True"
| "is_float _ = False"

definition is_integer :: "rat \<Rightarrow> bool" where
  \<comment> \<open>\<open>float.is_integer\<close>\<close>
  "is_integer x = (x = of_int \<lfloor>x\<rfloor>)"

definition trunc :: "rat \<Rightarrow> int" where
  \<comment> \<open>\<open>int(x)\<close> for a float: towards zero\<close>
  "trunc x = (if 0 \<le> x then \<lfloor>x\<rfloor> else \<lceil>x\<rceil>)"

definition to_float :: "cell \<Rightarrow> pyerror + rat" where
  \<comment> \<open>the float that a number is formatted as under a format type \<open>f\<close>\<close>
  "to_float v =
     (if is_float v then Inr (num v)
      else if overflows (num v) then Inl (OverflowError (lit ''int too large to convert to float''))
      else Inr (to_double (num v)))"

definition true_div :: "cell \<Rightarrow> int \<Rightarrow> pyerror + rat" where
  \<comment> \<open>\<open>value / d\<close> for a number and an \<open>int\<close> literal \<open>d\<close> that is exact as a float\<close>
  "true_div v d =
     (if \<not> is_float v \<and> overflows (num v / of_int d)
      then Inl (OverflowError (lit ''integer division result too large for a float''))
      else Inr (to_double (num v / of_int d)))"

text \<open>
  \<open>format(x, '.pf')\<close> and \<open>format(x, ',.pf')\<close> for a float \<open>x\<close>: the exact value rounded
  to \<open>p\<close> decimals, ties to even; the integer part in groups of three with the comma.
\<close>

function group3 :: "pystr \<Rightarrow> pystr" where
  "group3 ds =
     (if length ds \<le> 3 then ds
      else group3 (take (length ds - 3) ds) @ lit '','' @ drop (length ds - 3) ds)"
  by pat_completeness auto
termination
  by (relation "measure length") auto

definition format_f :: "nat \<Rightarrow> bool \<Rightarrow> rat \<Rightarrow> pystr" where
  "format_f p grouped x =
     (let ds = digits (round_half_even (\<bar>x\<bar> * 10 ^ p));
          ds = replicate (Suc p - length ds) 48 @ ds;
          whole = take (length ds - p) ds;
          frac = drop (length ds - p) ds
      in (if x < 0 then lit ''-'' else []) @ (if grouped then group3 whole else whole) @
         (if 0 < p then lit ''.'' @ frac else []))"

text \<open>
  \<open>str(value)\<close>. The shortest decimal text that Python prints for a float is a function of
  the float that is not modelled; it is the parameter \<open>float_repr\<close>.
\<close>

fun py_str :: "(rat \<Rightarrow> pystr) \<Rightarrow> cell \<Rightarrow> pystr" where
  "py_str float_repr PNone = lit ''None''"
| "py_str float_repr (PBool b) = (if b then lit ''True'' else lit ''False'')"
| "py_str float_repr (PInt i) = str_int i"
| "py_str float_repr (PFloat x) = float_repr x"
| "py_str float_repr (PStr s) = s"

definition euro :: pystr where
  \<comment> \<open>the euro sign, U+20AC\<close>
  "euro = [8364]"

section \<open>The world outside the program\<close>

text \<open>
  The generative service, the Python interpreter and the libraries are not part of the
  repository. What they answer is a parameter of the model. A call of the service and
  the \<open>collect()\<close> of a lazy frame are taken to come back, with a value or with an
  exception of class \<open>Exception\<close>; the evaluation of an expression may also not come back,
  or raise an exception outside \<open>Exception\<close>.
\<close>

datatype reply =
    Reply pystr      \<comment> \<open>\<open>resp.text\<close> of the response\<close>
  | Failed pystr     \<comment> \<open>the call raised an exception with this message\<close>

text \<open>An object bound to a name of a namespace; a namespace (a \<open>dict\<close>) in insertion order.\<close>

datatype pyobj =
    Frame table                      \<comment> \<open>a \<open>pl.DataFrame\<close>\<close>
  | Module pystr                     \<comment> \<open>a module, by its name\<close>
  | Builtin pystr                    \<comment> \<open>a builtin function, by its name\<close>
  | Dict "(pystr \<times> pyobj) list"      \<comment> \<open>a \<open>dict\<close> with names as keys\<close>

type_synonym namespace = "(pystr \<times> pyobj) list"

text \<open>
  What an evaluated expression returns: a \<open>pl.LazyFrame\<close>, given by what its \<open>collect()\<close>
  does (it raises or returns a frame); a \<open>pl.DataFrame\<close>; or another value, given by what
  \<open>pl.DataFrame({"result": [res]})\<close> does with it (it raises or stores the value in a cell).
\<close>

datatype pyvalue =
    LazyFrame "pystr + table"
  | DataFrame table
  | Other "pystr + cell"

datatype outcome =
    Returns pyvalue
  | Raises pystr        \<comment> \<open>an exception of class \<open>Exception\<close>, with its \<open>str\<close>\<close>
  | RaisesBase pystr    \<comment> \<open>an exception outside \<open>Exception\<close> (\<open>SystemExit\<close>, \<open>KeyboardInterrupt\<close>)\<close>
  | NeverReturns        \<comment> \<open>the evaluation does not come back\<close>

record world =
  generate_content :: "nat \<Rightarrow> pystr \<Rightarrow> pystr \<Rightarrow> reply"
    \<comment> \<open>the reply to the \<open>k\<close>-th request of a run, for a model name and a prompt\<close>
  compile_expr :: "pystr \<Rightarrow> pystr option"
    \<comment> \<open>\<open>compile(expr, "<string>", "eval")\<close>: the message of the exception, if it raises\<close>
  eval_expr :: "namespace \<Rightarrow> namespace \<Rightarrow> pystr \<Rightarrow> outcome"
    \<comment> \<open>\<open>eval(expr, globals, locals)\<close>\<close>
  to_string :: "table \<Rightarrow> pystr"
    \<comment> \<open>\<open>df.to_pandas().to_string(index=False)\<close>\<close>
  listing :: "pystr set \<Rightarrow> pystr list"
    \<comment> \<open>\<open>list(s)\<close> for a set \<open>s\<close>\<close>
  unicode :: unicode_db
  float_repr :: "rat \<Rightarrow> pystr"
    \<comment> \<open>\<open>str(x)\<close> for a float \<open>x\<close>\<close>

text \<open>What the program does to the outside, in order.\<close>

datatype event =
    Generate pystr pystr                   \<comment> \<open>a request to the service: model name and prompt\<close>
  | StError pystr                          \<comment> \<open>\<open>st.error\<close>\<close>
  | StCode pystr                           \<comment> \<open>\<open>st.code\<close> under the expander "Generated Query"\<close>
  | StWarning pystr                        \<comment> \<open>\<open>st.warning\<close>\<close>
  | StSuccess pystr                        \<comment> \<open>\<open>st.success\<close>\<close>
  | StCard cell "(pystr \<times> pystr) list"     \<comment> \<open>a boat card: its title and its fields\<close>

text \<open>A call that may not come back, or be left by an exception that nothing catches.\<close>

datatype 'a run = Done 'a | Propagates pystr | Hangs

section \<open>Expression generation (app.py)\<close>

definition INSTRUCTION_STR :: pystr where
  "INSTRUCTION_STR =
     lit ''1. Convert the query to executable Python code using **Polars** (not pandas). DO NOT use the option case sensitive\<newline>'' @
     lit ''2. The final line must be a Python expression that can be passed to eval().\<newline>'' @
     lit ''3. DO NOT use the option case sensitive\<newline>'' @
     lit ''3. It **must return a pl.DataFrame** (use head() if necessary).\<newline>'' @
     lit ''4. PRINT ONLY THE EXPRESSION, no extra text or formatting.\<newline>'' @
     lit ''5. Do not wrap the expression in quotes or markdown.\<newline>'' @
     lit ''6. Use `df.filter(<boolean>)`, `pl.lit`, or the lazy API; **avoid** `df[bool_mask]` row'' @ [8209] @ lit ''filter syntax.\<newline>'' @
     lit ''7. **IMPORTANT**: If the query mentions a specific brand name (like 'Azimut', 'Ferretti', 'Princess', etc.), '' @
     lit ''you MUST filter by that brand. Look for brand information in columns like 'brand', 'manufacturer', 'make', '' @
     lit ''or check if the brand name appears in the boat name. Use case-insensitive matching with `str.contains()`.\<newline>'' @
     lit ''8. For brand filtering, use: `df.filter(pl.col('brand').str.contains('brand_name'))` '' @
     lit ''or similar pattern matching.\<newline>'' @
     lit ''9. For location filtering, use: `df.filter(pl.col('location').str.contains('location_name'))` do not use the option case sensitive '' @
     lit ''or similar pattern matching.\<newline>'' @
     lit ''10. Combine filters using `&` (AND) operator.\<newline>'' @
     lit ''11. For case-insensitive substring search in Polars, use a regex pattern with (?i) at the start, e.g. pl.col('brand').str.contains('(?i)azimut'). Do NOT use a case_insensitive argument in .str.contains.\<newline>''"

definition PROMPT_TEMPLATE :: "pystr \<Rightarrow> pystr \<Rightarrow> pystr \<Rightarrow> pystr" where
  \<comment> \<open>\<open>PROMPT_TEMPLATE.format(df_str=..., instructions=..., query=...)\<close>\<close>
  "PROMPT_TEMPLATE df_str instructions query =
     lit ''You are working with a Polars DataFrame in Python.\<newline>'' @
     lit ''The DataFrame variable is named `df`.\<newline>'' @
     lit ''Here is the output of `print(df.head())`:\<newline>'' @
     df_str @ lit ''\<newline>\<newline>'' @
     lit ''Follow these instructions strictly:\<newline>'' @
     instructions @ lit ''\<newline>'' @
     lit ''Query: '' @ query @ lit ''\<newline>\<newline>'' @
     lit ''Expression:''"

definition build_prompt :: "pystr \<Rightarrow> pystr \<Rightarrow> pystr option \<Rightarrow> pystr" where
  "build_prompt query df_sample error =
     (let prompt = PROMPT_TEMPLATE df_sample INSTRUCTION_STR query
      in if truthy error
         then prompt @ lit ''\<newline>The previous expression produced the following error:\<newline>'' @
              the error @ lit ''\<newline>Please provide a corrected Polars expression.''
         else prompt)"

definition clean_reply :: "pystr \<Rightarrow> pystr" where
  "clean_reply reply_text =
     (let expr = strip reply_text
      in if startswith expr (lit ''```'')
         then strip (removeprefix (strip_chars (lit ''`\<newline>'') expr) (lit ''python''))
         else expr)"

definition requests :: "event list \<Rightarrow> (pystr \<times> pystr) list" where
  \<comment> \<open>the requests to the service in a trace: model name and prompt\<close>
  "requests trace = concat (map (\<lambda>e. case e of Generate m p \<Rightarrow> [(m, p)] | _ \<Rightarrow> []) trace)"

text \<open>
  \<open>get_polars_expression\<close> takes the trace of the run so far and returns the expression
  with the trace extended by what it did.
\<close>

definition get_polars_expression ::
  "world \<Rightarrow> pystr \<Rightarrow> pystr \<Rightarrow> pystr \<Rightarrow> pystr option \<Rightarrow> event list \<Rightarrow> pystr \<times> event list" where
  "get_polars_expression W query df_sample model error trace =
     (let prompt = build_prompt query df_sample error
      in case generate_content W (length (requests trace)) model prompt of
           Reply reply_text \<Rightarrow> (clean_reply reply_text, trace @ [Generate model prompt])
         | Failed e \<Rightarrow>
             ([], trace @ [Generate model prompt, StError (lit ''Error generating expression: '' @ e)]))"

section \<open>Evaluation and retry (app.py)\<close>

definition local_ns :: "table \<Rightarrow> namespace" where
  \<comment> \<open>\<open>{"df": df, "pl": pl}\<close>\<close>
  "local_ns df = [(lit ''df'', Frame df), (lit ''pl'', Module (lit ''polars''))]"

definition normalise :: "pyvalue \<Rightarrow> pystr + table" where
  "normalise res =
     (case res of
        LazyFrame collected \<Rightarrow> collected
      | DataFrame t \<Rightarrow> Inr t
      | Other wrapped \<Rightarrow>
          (case wrapped of
             Inl e \<Rightarrow> Inl e
           | Inr v \<Rightarrow> Inr \<lparr>columns = [lit ''result''], rows = [[v]]\<rparr>))"

type_synonym answer = "pystr \<times> table \<times> pystr list"

text \<open>
  The body of the \<open>try\<close> statement of \<open>query_boats\<close>: \<open>Inl\<close> is the text of the exception
  that the \<open>except Exception\<close> clause catches, \<open>Inr\<close> is the value returned.
\<close>

definition try_expression :: "world \<Rightarrow> table \<Rightarrow> pystr \<Rightarrow> (pystr + answer) run" where
  "try_expression W df expr =
     (case compile_expr W expr of
        Some e \<Rightarrow> Done (Inl e)
      | None \<Rightarrow>
          (case eval_expr W [] (local_ns df) expr of
             NeverReturns \<Rightarrow> Hangs
           | RaisesBase e \<Rightarrow> Propagates e
           | Raises e \<Rightarrow> Done (Inl e)
           | Returns res \<Rightarrow>
               (case normalise res of
                  Inl e \<Rightarrow> Done (Inl e)
                | Inr res \<Rightarrow>
                    (let cols_used = extract_cols (listing W) (unicode W) expr;
                         show_cols = get_display_columns res cols_used;
                         res = head 20 res
                     in Done (Inr (expr, res, show_cols))))))"

definition str_error :: "pystr option \<Rightarrow> pystr" where
  \<comment> \<open>\<open>error\<close> inside an f-string\<close>
  "str_error error = (case error of None \<Rightarrow> lit ''None'' | Some e \<Rightarrow> e)"

text \<open>
  The loop \<open>for _ in range(max_retries + 1)\<close> with \<open>n\<close> rounds left, and what follows it.
  The state is the last error, the last expression and the trace.
\<close>

fun attempts ::
  "world \<Rightarrow> table \<Rightarrow> pystr \<Rightarrow> pystr \<Rightarrow> pystr \<Rightarrow> nat \<Rightarrow> pystr option \<Rightarrow> pystr \<Rightarrow> event list
   \<Rightarrow> answer run \<times> event list" where
  "attempts W df query model df_head_str 0 error expr trace =
     (Done (expr, empty_frame, []),
      trace @ [StCode expr, StError (lit ''Error executing query: '' @ str_error error)])"
| "attempts W df query model df_head_str (Suc n) error expr trace =
     (case get_polars_expression W query df_head_str model error trace of
        (expr, trace) \<Rightarrow>
          if expr = [] then (Done ([], empty_frame, []), trace)
          else (case try_expression W df expr of
                  Hangs \<Rightarrow> (Hangs, trace)
                | Propagates e \<Rightarrow> (Propagates e, trace)
                | Done (Inl e) \<Rightarrow> attempts W df query model df_head_str n (Some e) expr trace
                | Done (Inr result) \<Rightarrow> (Done result, trace)))"

definition query_boats :: "world \<Rightarrow> table \<Rightarrow> pystr \<Rightarrow> pystr \<Rightarrow> int \<Rightarrow> answer run \<times> event list" where
  "query_boats W df query model max_retries =
     (if is_empty df then (Done ([], empty_frame, []), [])
      else let df_head_str = to_string W (head 5 df)
           in attempts W df query model df_head_str (nat (max_retries + 1)) None [] [])"

section \<open>Name lookup of \<open>eval\<close>\<close>








section \<open>Attempts of a run\<close>

text \<open>
  The expression that the \<open>k\<close>-th request of a run gives, and the text of the exception
  with which an attempt on an expression fails, if it fails.
\<close>

definition attempt_expr :: "world \<Rightarrow> nat \<Rightarrow> pystr \<Rightarrow> pystr \<Rightarrow> pystr" where
  "attempt_expr W k model prompt =
     (case generate_content W k model prompt of Reply reply_text \<Rightarrow> clean_reply reply_text | Failed e \<Rightarrow> [])"

definition attempt_failure :: "world \<Rightarrow> table \<Rightarrow> pystr \<Rightarrow> pystr option" where
  "attempt_failure W df expr =
     (case try_expression W df expr of Done (Inl e) \<Rightarrow> Some e | _ \<Rightarrow> None)"

definition malformed :: "world \<Rightarrow> nat \<Rightarrow> pystr \<Rightarrow> pystr \<Rightarrow> bool" where
  \<comment> \<open>the \<open>k\<close>-th request gives a non-empty expression that does not compile\<close>
  "malformed W k model prompt =
     (attempt_expr W k model prompt \<noteq> [] \<and> compile_expr W (attempt_expr W k model prompt) \<noteq> None)"

section \<open>Formatting and display (app.py)\<close>

definition format_value :: "world \<Rightarrow> cell \<Rightarrow> pystr \<Rightarrow> pyerror + pystr" where
  "format_value W value col_name =
     (if value = PNone then Inr (lit ''N/A'')
      else if is_number value then
        (let value = (if is_float value \<and> is_integer (num value) then PInt (trunc (num value))
                      else value)
         in if col_name \<in> set PRICE_COLS then
              (if 1000000 \<le> num value then
                 map_sum id (\<lambda>q. euro @ format_f 1 False q @ lit ''M'') (true_div value 1000000)
               else if 1000 \<le> num value then
                 map_sum id (\<lambda>q. euro @ format_f 0 False q @ lit ''K'') (true_div value 1000)
               else map_sum id (\<lambda>x. euro @ format_f 0 True x) (to_float value))
            else if col_name \<in> set YEAR_COLS then Inr (py_str (float_repr W) value)
            else Inr (py_str (float_repr W) value))
      else Inr (py_str (float_repr W) value))"

text \<open>
  What a display function has put out, and the exception that ended it, if one did. The
  label of a field, which \<open>display_boat_card\<close> and \<open>bullets\<close> derive from the name of the
  column, is not modelled: a field is given by its column.
\<close>

type_synonym 'e printed = "'e list \<times> pyerror option"

type_synonym row = "(pystr \<times> cell) list"

definition named_rows :: "table \<Rightarrow> row list" where
  \<comment> \<open>\<open>df.rows(named=True)\<close>; the column names of a frame are distinct\<close>
  "named_rows df = map (\<lambda>r. zip (columns df) r) (rows df)"

datatype element =
    CardTitle cell            \<comment> \<open>the heading of a boat card, with the value shown\<close>
  | CardField pystr pystr     \<comment> \<open>a field of the card: column and text\<close>
  | CardEnd

definition value_display :: "pystr \<Rightarrow> pystr \<Rightarrow> pystr" where
  "value_display col v =
     (if col \<in> set PRICE_COLS then lit ''<span class='price-highlight'>'' @ v @ lit ''</span>''
      else if col \<in> set YEAR_COLS then lit ''<span class='year-highlight'>'' @ v @ lit ''</span>''
      else v)"

fun card_fields :: "world \<Rightarrow> row \<Rightarrow> pystr option \<Rightarrow> pystr list \<Rightarrow> element printed" where
  "card_fields W row name_col [] = ([CardEnd], None)"
| "card_fields W row name_col (col # cols) =
     (if Some col = name_col then card_fields W row name_col cols
      else (case map_of row col of
              None \<Rightarrow> card_fields W row name_col cols
            | Some v \<Rightarrow>
                if v = PNone then card_fields W row name_col cols
                else (case format_value W v col of
                        Inl e \<Rightarrow> ([], Some e)
                      | Inr shown \<Rightarrow>
                          (case card_fields W row name_col cols of
                             (out, e) \<Rightarrow> (CardField col (value_display col shown) # out, e)))))"

definition display_boat_card :: "world \<Rightarrow> row \<Rightarrow> pystr list \<Rightarrow> element printed" where
  "display_boat_card W row display_cols =
     (let name_col = find (\<lambda>c. c \<in> set display_cols) NAME_COLS;
          boat_name = (if truthy name_col
                       then (case map_of row (the name_col) of
                               Some v \<Rightarrow> v | None \<Rightarrow> PStr (lit ''Boat''))
                       else PStr (lit ''Boat''))
      in case card_fields W row name_col display_cols of
           (out, e) \<Rightarrow> (CardTitle boat_name # out, e))"

fun display_cards :: "world \<Rightarrow> pystr list \<Rightarrow> row list \<Rightarrow> element printed" where
  "display_cards W display_cols [] = ([], None)"
| "display_cards W display_cols (row # rest) =
     (case display_boat_card W row display_cols of
        (out, Some e) \<Rightarrow> (out, Some e)
      | (out, None) \<Rightarrow>
          (case display_cards W display_cols rest of (out', e) \<Rightarrow> (out @ out', e)))"

datatype shown =
    Warning pystr       \<comment> \<open>\<open>st.warning\<close>\<close>
  | Code pystr          \<comment> \<open>\<open>st.code\<close> under the expander "Generated Query"\<close>
  | Success pystr       \<comment> \<open>\<open>st.success\<close>\<close>
  | Cards "element list"

definition display_results :: "world \<Rightarrow> pystr \<Rightarrow> table \<Rightarrow> pystr list \<Rightarrow> shown printed" where
  "display_results W expr results_df display_cols =
     (if is_empty results_df then ([Warning (lit ''No boats found matching your criteria.'')], None)
      else (case display_cards W display_cols (named_rows results_df) of
              (out, e) \<Rightarrow>
                ([Code expr,
                  Success (lit ''Found '' @ str_int (int (length (rows results_df))) @
                           lit '' boats matching your criteria''),
                  Cards out], e)))"

definition card_count :: "shown list \<Rightarrow> nat" where
  \<comment> \<open>the boat cards among what is shown\<close>
  "card_count out =
     length (filter (\<lambda>x. case x of CardTitle _ \<Rightarrow> True | _ \<Rightarrow> False)
               (concat (map (\<lambda>x. case x of Cards es \<Rightarrow> es | _ \<Rightarrow> []) out)))"

section \<open>Formatting and display (filters3.py)\<close>

definition f3_format_value :: "world \<Rightarrow> cell \<Rightarrow> pystr" where
  "f3_format_value W value =
     (if value = PNone then lit ''N/A''
      else if is_number value then
        (if is_float value \<and> is_integer (num value) then str_int (trunc (num value))
         else py_str (float_repr W) value)
      else py_str (float_repr W) value)"

datatype console =
    Notice pystr          \<comment> \<open>a message in place of the results\<close>
  | Found nat             \<comment> \<open>the line with the number of results\<close>
  | BoatHeader nat        \<comment> \<open>the heading of the \<open>i\<close>-th boat\<close>
  | BoatLine pystr pystr  \<comment> \<open>a line of a boat: column and text\<close>
  | Errore pystr          \<comment> \<open>the line of \<open>main\<close> for an exception\<close>

definition f3_cell :: "world \<Rightarrow> pystr \<Rightarrow> cell \<Rightarrow> pyerror + pystr" where
  \<comment> \<open>the text of one cell in \<open>bullets\<close>\<close>
  "f3_cell W col value =
     (let formatted_value = f3_format_value W value
      in if col \<in> set f3_PRICE_COLS \<and> is_number value then
           (if 1000000 \<le> num value then
              map_sum id (\<lambda>q. euro @ format_f 1 False q @ lit ''M'') (true_div value 1000000)
            else if 1000 \<le> num value then
              map_sum id (\<lambda>q. euro @ format_f 0 False q @ lit ''K'') (true_div value 1000)
            else map_sum id (\<lambda>x. euro @ format_f 0 True x) (to_float value))
         else if col \<in> set f3_YEAR_COLS \<and> is_number value then Inr (str_int (trunc (num value)))
         else Inr formatted_value)"

fun f3_fields :: "world \<Rightarrow> row \<Rightarrow> pystr list \<Rightarrow> console printed" where
  "f3_fields W row [] = ([], None)"
| "f3_fields W row (col # cols) =
     (case map_of row col of
        None \<Rightarrow> f3_fields W row cols
      | Some value \<Rightarrow>
          (case f3_cell W col value of
             Inl e \<Rightarrow> ([], Some e)
           | Inr formatted_value \<Rightarrow>
               (case f3_fields W row cols of
                  (out, e) \<Rightarrow> (BoatLine col formatted_value # out, e))))"

fun f3_boats :: "world \<Rightarrow> pystr list \<Rightarrow> nat \<Rightarrow> row list \<Rightarrow> console printed" where
  "f3_boats W display_cols i [] = ([], None)"
| "f3_boats W display_cols i (row # rest) =
     (case f3_fields W row display_cols of
        (out, Some e) \<Rightarrow> (BoatHeader i # out, Some e)
      | (out, None) \<Rightarrow>
          (case f3_boats W display_cols (Suc i) rest of
             (out', e) \<Rightarrow> (BoatHeader i # out @ out', e)))"

definition bullets :: "world \<Rightarrow> table \<Rightarrow> pystr list \<Rightarrow> console printed" where
  "bullets W df cols =
     (if is_empty df then ([Notice (lit ''[yellow]Nessun risultato trovato.[/]'')], None)
      else let display_cols = f3_get_display_columns df cols
           in if display_cols = []
              then ([Notice (lit ''[yellow]Nessuna colonna valida trovata per la visualizzazione.[/]'')],
                    None)
              else (case f3_boats W display_cols 1 (named_rows df) of
                      (out, e) \<Rightarrow> (Found (length (rows df)) # out, e)))"

definition boat_count :: "console list \<Rightarrow> nat" where
  \<comment> \<open>the boats among what is printed\<close>
  "boat_count out = length (filter (\<lambda>x. case x of BoatHeader _ \<Rightarrow> True | _ \<Rightarrow> False) out)"

text \<open>
  The part of the loop of \<open>main\<close> that follows the generation of the expression: the
  evaluation, the normalisation and the printing, with the \<open>except Exception\<close> clause.
\<close>

definition f3_answer :: "world \<Rightarrow> table \<Rightarrow> pystr \<Rightarrow> console list run" where
  "f3_answer W df expr =
     (case eval_expr W [] [(lit ''df'', Frame df), (lit ''pl'', Module (lit ''polars''))] expr of
        NeverReturns \<Rightarrow> Hangs
      | RaisesBase e \<Rightarrow> Propagates e
      | Raises e \<Rightarrow> Done [Errore e]
      | Returns res \<Rightarrow>
          (case normalise res of
             Inl e \<Rightarrow> Done [Errore e]
           | Inr res \<Rightarrow>
               (let cols_used = f3_extract_cols (listing W) (unicode W) expr
                in case bullets W res cols_used of
                     (out, None) \<Rightarrow> Done out
                   | (out, Some (OverflowError e)) \<Rightarrow> Done (out @ [Errore e]))))"

section \<open>Example inputs\<close>

text \<open>A world, frames and a query on which the theorems below are run.\<close>

definition ascii_db :: unicode_db where
  \<comment> \<open>a database without digits or letters beyond ASCII\<close>
  "ascii_db = \<lparr>uni_decimal = (\<lambda>c. False), uni_alnum = (\<lambda>c. False)\<rparr>"

definition example_world :: world where
  \<comment> \<open>the service answers \<open>df\<close>, which compiles and evaluates to the frame bound to \<open>df\<close>\<close>
  "example_world =
     \<lparr>generate_content = (\<lambda>k model prompt. Reply (lit ''df'')),
      compile_expr = (\<lambda>expr. None),
      eval_expr = (\<lambda>globals locals expr.
         case map_of locals (lit ''df'') of
           Some (Frame df) \<Rightarrow> Returns (DataFrame df)
         | _ \<Rightarrow> Raises (lit ''name 'df' is not defined'')),
      to_string = (\<lambda>df. lit ''name price''),
      listing = sorted_list_of_set,
      unicode = ascii_db,
      float_repr = (\<lambda>x. lit ''0.5'')\<rparr>"

definition world_malformed :: world where
  \<comment> \<open>every reply is an expression that does not compile\<close>
  "world_malformed =
     example_world
       \<lparr>generate_content := (\<lambda>k model prompt. Reply (lit ''df.filter('')),
        compile_expr := (\<lambda>expr. Some (lit '''(' was never closed (<string>, line 1)''))\<rparr>"

definition world_down :: world where
  \<comment> \<open>the service fails\<close>
  "world_down =
     example_world\<lparr>generate_content := (\<lambda>k model prompt. Failed (lit ''503 Service Unavailable''))\<rparr>"

definition world_hanging :: world where
  \<comment> \<open>the service answers \<open>sum(iter(int, 1))\<close>, which adds up the zeros that \<open>int()\<close> returns and
     does not end: no call of \<open>int()\<close> returns the sentinel 1\<close>
  "world_hanging =
     example_world
       \<lparr>generate_content := (\<lambda>k model prompt. Reply (lit ''sum(iter(int, 1))'')),
        eval_expr := (\<lambda>globals locals expr.
          if expr = lit ''sum(iter(int, 1))'' then NeverReturns
          else eval_expr example_world globals locals expr)\<rparr>"

definition world_raising :: world where
  \<comment> \<open>the service answers \<open>1/0\<close>, which raises \<open>ZeroDivisionError\<close>\<close>
  "world_raising =
     example_world
       \<lparr>generate_content := (\<lambda>k model prompt. Reply (lit ''1/0'')),
        eval_expr := (\<lambda>globals locals expr.
          if expr = lit ''1/0'' then Raises (lit ''division by zero'')
          else eval_expr example_world globals locals expr)\<rparr>"



definition boats :: "nat \<Rightarrow> table" where
  \<comment> \<open>a frame of \<open>n\<close> boats\<close>
  "boats n =
     \<lparr>columns = [lit ''name'', lit ''price''],
      rows = replicate n [PStr (lit ''Azimut 50''), PInt 450000]\<rparr>"

definition a_query :: pystr where
  "a_query = lit ''Boats in Liguria''"

definition a_model :: pystr where
  "a_model = lit ''gemini-2.5-flash''"

section \<open>Properties of the column resolution\<close>

lemma foldl_add_col:
  "foldl (add_col df) d q =
     d @ first_occurrences (filter (\<lambda>c. c \<in> set (columns df) \<and> c \<notin> set d) q)"
proof (induction q arbitrary: d)
  case Nil
  show ?case by simp
next
  case (Cons x xs)
  show ?case
  proof (cases "x \<in> set (columns df) \<and> x \<notin> set d")
    case True
    have "filter (\<lambda>c. c \<in> set (columns df) \<and> c \<notin> set (d @ [x])) xs =
          filter (\<lambda>y. y \<noteq> x) (filter (\<lambda>c. c \<in> set (columns df) \<and> c \<notin> set d) xs)"
      by (auto intro: filter_cong)
    with True Cons.IH [of "d @ [x]"] show ?thesis
      by (simp add: add_col_def)
  next
    case False
    with Cons.IH [of d] show ?thesis
      by (auto simp: add_col_def)
  qed
qed

lemma alias_nonempty:
  "[] \<notin> set NAME_COLS" "[] \<notin> set PRICE_COLS" "[] \<notin> set YEAR_COLS"
  by (simp_all add: NAME_COLS_def PRICE_COLS_def YEAR_COLS_def lit_def)

lemma truthy_find:
  assumes "[] \<notin> set aliases"
  shows "truthy (find P aliases) = (find P aliases \<noteq> None)"
proof (cases "find P aliases")
  case None
  then show ?thesis by simp
next
  case (Some c)
  then have "c \<in> set aliases"
    by (auto simp: find_Some_iff)
  with assms Some show ?thesis by auto
qed

lemma plan_core:
  assumes "truthy n = (n \<noteq> None)" "truthy p = (p \<noteq> None)" "truthy y = (y \<noteq> None)"
  shows "(let display_cols = [];
              display_cols = (if truthy n then display_cols @ [the n] else display_cols);
              display_cols = (if truthy p \<and> the p \<notin> set display_cols
                              then display_cols @ [the p] else display_cols);
              display_cols = (if truthy y \<and> the y \<notin> set display_cols
                              then display_cols @ [the y] else display_cols)
          in foldl (add_col df) display_cols q) =
         (let name = (case n of None \<Rightarrow> [] | Some c \<Rightarrow> [c]);
              price = filter (\<lambda>c. c \<notin> set name) (case p of None \<Rightarrow> [] | Some c \<Rightarrow> [c]);
              year = filter (\<lambda>c. c \<notin> set (name @ price)) (case y of None \<Rightarrow> [] | Some c \<Rightarrow> [c]);
              others = first_occurrences
                         (filter (\<lambda>c. c \<in> set (columns df) \<and> c \<notin> set (name @ price @ year)) q)
          in name @ price @ year @ others)"
proof (cases n)
  case None
  note n = this
  show ?thesis
  proof (cases p)
    case None
    with n assms show ?thesis
      by (cases y) (auto simp: foldl_add_col Let_def conj_ac)
  next
    case (Some b)
    with n assms show ?thesis
      by (cases y) (auto simp: foldl_add_col Let_def conj_ac)
  qed
next
  case (Some a)
  note n = this
  show ?thesis
  proof (cases p)
    case None
    with n assms show ?thesis
      by (cases y) (auto simp: foldl_add_col Let_def conj_ac)
  next
    case (Some b)
    with n assms show ?thesis
      by (cases y) (auto simp: foldl_add_col Let_def conj_ac)
  qed
qed

text \<open>
  Claim C7. For every result table and every list of extracted identifiers, the list that
  \<open>get_display_columns\<close> returns is the display plan of the specification: the first
  alias of the Name group that is a column of the result; then the first such alias of
  the Price group, unless it is already in the list; then the first such alias of the
  Year group, unless it is already in the list; then the extracted identifiers that are
  columns of the result and not yet in the list, in their order, each once. An identifier
  that is not a column of the result does not appear.
\<close>

theorem display_columns_order:
  "get_display_columns df query_cols = display_plan (columns df) query_cols"
  unfolding get_display_columns_def display_plan_def first_present_def first_alias_def Let_def
  by (rule plan_core [unfolded Let_def]) (rule truthy_find, rule alias_nonempty)+

lemma f3_same_display: "f3_get_display_columns df q = get_display_columns df q"
  unfolding f3_get_display_columns_def get_display_columns_def first_present_def
    f3_NAME_COLS_def NAME_COLS_def f3_PRICE_COLS_def PRICE_COLS_def f3_YEAR_COLS_def YEAR_COLS_def
    add_col_def [abs_def]
  by (rule refl)

lemma f3_same_set: "f3_extract_cols_set U e = extract_cols_set U e"
  unfolding f3_extract_cols_set_def extract_cols_set_def f3_col_pattern_def col_pattern_def
    f3_index_pattern_def index_pattern_def
  by (rule refl)

text \<open>
  Claim C10. For every expression, \<open>extract_cols\<close> of app.py and \<open>extract_cols\<close> of
  filters3.py collect the same set of identifiers (and return the same list when the set
  is listed in the same order), and for every result table and every list of extracted
  identifiers \<open>get_display_columns\<close> of app.py and of filters3.py return the same list.
\<close>

theorem column_resolution_equivalent:
  "f3_extract_cols_set U expr = extract_cols_set U expr \<and>
   f3_extract_cols as_list U expr = extract_cols as_list U expr \<and>
   f3_get_display_columns df query_cols = get_display_columns df query_cols"
  by (simp add: f3_same_set f3_same_display f3_extract_cols_def extract_cols_def)

section \<open>Properties of the numeric spans\<close>

declare finditer_from.simps [simp del]

lemma rmatch_forward: "(j, h) \<in> set (rmatch U r s (i, g)) \<Longrightarrow> i \<le> j"
proof (induction r arbitrary: i g j h)
  case (Seq a b)
  then show ?case by (fastforce intro: le_trans)
qed (auto split: if_splits)

lemma finditer_from_spans:
  "(a, b, g) \<in> set (finditer_from U r s i) \<Longrightarrow> a \<le> b"
proof (induction U r s i rule: finditer_from.induct)
  case (1 U r s i)
  show ?case
  proof (cases "length s < i")
    case True
    with "1.prems" show ?thesis
      by (subst (asm) finditer_from.simps) simp
  next
    case False
    show ?thesis
    proof (cases "rmatch U r s (i, None)")
      case Nil
      from "1.prems" False Nil have "(a, b, g) \<in> set (finditer_from U r s (Suc i))"
        by (subst (asm) finditer_from.simps) simp
      with "1.IH"(1) [OF False Nil] show ?thesis by simp
    next
      case (Cons st sts)
      obtain e h where st: "st = (e, h)" by (cases st)
      have ie: "i \<le> e"
        using rmatch_forward [of e h U r s i None] Cons st by simp
      from "1.prems" False Cons st
      have "(a, b, g) = (i, e, h) \<or> (a, b, g) \<in> set (finditer_from U r s (if i < e then e else Suc i))"
        by (subst (asm) finditer_from.simps) simp
      then show ?thesis
      proof
        assume "(a, b, g) = (i, e, h)"
        with ie show ?thesis by simp
      next
        assume "(a, b, g) \<in> set (finditer_from U r s (if i < e then e else Suc i))"
        with "1.IH"(2) [OF False Cons st [symmetric]] show ?thesis by simp
      qed
    qed
  qed
qed

lemma splice_same: "a \<le> b \<Longrightarrow> take a q @ slice q a b @ drop b q = q"
proof -
  assume ab: "a \<le> b"
  have "drop b q = drop (b - a) (drop a q)"
    using ab by (simp only: drop_drop le_add_diff_inverse2)
  moreover have "take (b - a) (drop a q) @ drop (b - a) (drop a q) = drop a q"
    by (rule append_take_drop_id)
  ultimately have "slice q a b @ drop b q = drop a q"
    by (simp only: slice_def)
  then show ?thesis by simp
qed

lemma rewrite_own_literals:
  assumes "\<forall>(num, a, b) \<in> set ns. num = slice q a b \<and> a \<le> b"
  shows "foldl rewrite_step q (map (\<lambda>n. (n, fst n)) ns) = q"
  using assms
proof (induction ns)
  case Nil
  show ?case by simp
next
  case (Cons n ns)
  obtain num a b where n: "n = (num, a, b)" by (cases n)
  with Cons.prems have "num = slice q a b" "a \<le> b" by auto
  then have "rewrite_step q (n, fst n) = q"
    by (simp add: rewrite_step_def n splice_same)
  with Cons show ?case by simp
qed

lemma spans_literal:
  "\<forall>(num, a, b) \<in> set (extract_number_spans U q). num = slice q a b \<and> a \<le> b"
  by (auto simp: extract_number_spans_def finditer_def dest: finditer_from_spans)

text \<open>
  Claim C9. For every text, replacing every span that \<open>extract_number_spans\<close> finds by the
  literal of that span, from the last span to the first as the loop of \<open>main\<close> does, gives
  the text back.
\<close>

theorem rewrite_round_trip:
  "rewrite_numbers q (extract_number_spans U q) (map fst (extract_number_spans U q)) = q"
proof -
  let ?ns = "extract_number_spans U q"
  have "zip (rev ?ns) (rev (map fst ?ns)) = map (\<lambda>n. (n, fst n)) (rev ?ns)"
    by (simp add: rev_map zip_map2 zip_same_conv_map)
  moreover have "\<forall>(num, a, b) \<in> set (rev ?ns). num = slice q a b \<and> a \<le> b"
    using spans_literal [of U q] by simp
  ultimately show ?thesis
    unfolding rewrite_numbers_def by (simp add: rewrite_own_literals)
qed

section \<open>Properties of the retry loop\<close>

lemma requests_append: "requests (a @ b) = requests a @ requests b"
  by (simp add: requests_def)

lemma gpe_expr:
  "fst (get_polars_expression W q s m err tr) =
     attempt_expr W (length (requests tr)) m (build_prompt q s err)"
  by (simp add: get_polars_expression_def attempt_expr_def Let_def split: reply.splits)

lemma gpe_requests:
  "requests (snd (get_polars_expression W q s m err tr)) = requests tr @ [(m, build_prompt q s err)]"
  by (simp add: get_polars_expression_def Let_def requests_def split: reply.splits)

lemma attempts_Suc:
  "attempts W df q m s (Suc n) err e tr =
     (let g = get_polars_expression W q s m err tr
      in if fst g = [] then (Done ([], empty_frame, []), snd g)
         else (case try_expression W df (fst g) of
                 Hangs \<Rightarrow> (Hangs, snd g)
               | Propagates x \<Rightarrow> (Propagates x, snd g)
               | Done (Inl x) \<Rightarrow> attempts W df q m s n (Some x) (fst g) (snd g)
               | Done (Inr r) \<Rightarrow> (Done r, snd g)))"
  by (cases "get_polars_expression W q s m err tr") (simp add: Let_def split: run.splits sum.splits)

lemma attempts_stop:
  assumes "fst (get_polars_expression W q s m err tr) = [] \<or>
           (\<forall>x. try_expression W df (fst (get_polars_expression W q s m err tr)) \<noteq> Done (Inl x))"
  shows "snd (attempts W df q m s (Suc n) err e tr) = snd (get_polars_expression W q s m err tr)"
  using assms
  by (auto simp del: attempts.simps simp add: attempts_Suc Let_def split: run.splits sum.splits)

lemma attempts_retry:
  assumes "fst (get_polars_expression W q s m err tr) \<noteq> []"
    and "try_expression W df (fst (get_polars_expression W q s m err tr)) = Done (Inl x)"
  shows "attempts W df q m s (Suc n) err e tr =
         attempts W df q m s n (Some x) (fst (get_polars_expression W q s m err tr))
           (snd (get_polars_expression W q s m err tr))"
  using assms by (simp del: attempts.simps add: attempts_Suc Let_def)

lemma prompt_has_error: "sublist x (build_prompt q s (Some x))"
proof (cases "x = []")
  case True
  then show ?thesis by simp
next
  case False
  then have "build_prompt q s (Some x) =
      (PROMPT_TEMPLATE s INSTRUCTION_STR q @
        lit ''\<newline>The previous expression produced the following error:\<newline>'') @ x @
      lit ''\<newline>Please provide a corrected Polars expression.''"
    by (simp add: build_prompt_def)
  then show ?thesis
    unfolding sublist_def by blast
qed

lemma attempts_requests:
  "\<exists>new. requests (snd (attempts W df q m s n err e tr)) = requests tr @ new \<and>
          length new \<le> n \<and>
          (new \<noteq> [] \<longrightarrow> snd (new ! 0) = build_prompt q s err) \<and>
          (\<forall>j. Suc j < length new \<longrightarrow>
             (\<exists>x. attempt_failure W df
                    (attempt_expr W (length (requests tr) + j) m (snd (new ! j))) = Some x \<and>
                  snd (new ! Suc j) = build_prompt q s (Some x)))"
proof (induction n arbitrary: err e tr)
  case 0
  show ?case
    by (rule exI [of _ "[]"]) (simp add: requests_def)
next
  case (Suc n)
  let ?g = "get_polars_expression W q s m err tr"
  let ?p = "build_prompt q s err"
  have g: "requests (snd ?g) = requests tr @ [(m, ?p)]"
    by (rule gpe_requests)
  have ex: "fst ?g = attempt_expr W (length (requests tr)) m ?p"
    by (rule gpe_expr)
  show ?case
  proof (cases "fst ?g \<noteq> [] \<and> (\<exists>x. try_expression W df (fst ?g) = Done (Inl x))")
    case False
    then have "snd (attempts W df q m s (Suc n) err e tr) = snd ?g"
      by (intro attempts_stop) auto
    with g show ?thesis
      by (intro exI [of _ "[(m, ?p)]"]) simp
  next
    case True
    then obtain x where ne: "fst ?g \<noteq> []" and x: "try_expression W df (fst ?g) = Done (Inl x)"
      by blast
    have step: "attempts W df q m s (Suc n) err e tr =
                attempts W df q m s n (Some x) (fst ?g) (snd ?g)"
      by (rule attempts_retry [OF ne x])
    from Suc.IH [of "Some x" "fst ?g" "snd ?g"]
    obtain new where
      n1: "requests (snd (attempts W df q m s n (Some x) (fst ?g) (snd ?g))) = requests (snd ?g) @ new"
      and n2: "length new \<le> n"
      and n3: "new \<noteq> [] \<longrightarrow> snd (new ! 0) = build_prompt q s (Some x)"
      and n4: "\<forall>j. Suc j < length new \<longrightarrow>
             (\<exists>y. attempt_failure W df
                    (attempt_expr W (length (requests (snd ?g)) + j) m (snd (new ! j))) = Some y \<and>
                  snd (new ! Suc j) = build_prompt q s (Some y))"
      by blast
    have fail: "attempt_failure W df (attempt_expr W (length (requests tr)) m ?p) = Some x"
      using x ex by (simp add: attempt_failure_def)
    have len: "length (requests (snd ?g)) = Suc (length (requests tr))"
      using g by simp
    have "\<forall>j. Suc j < length ((m, ?p) # new) \<longrightarrow>
             (\<exists>y. attempt_failure W df
                    (attempt_expr W (length (requests tr) + j) m (snd (((m, ?p) # new) ! j))) = Some y \<and>
                  snd (((m, ?p) # new) ! Suc j) = build_prompt q s (Some y))"
    proof (intro allI impI)
      fix j
      assume j: "Suc j < length ((m, ?p) # new)"
      show "\<exists>y. attempt_failure W df
                    (attempt_expr W (length (requests tr) + j) m (snd (((m, ?p) # new) ! j))) = Some y \<and>
                  snd (((m, ?p) # new) ! Suc j) = build_prompt q s (Some y)"
      proof (cases j)
        case 0
        with j have "new \<noteq> []" by auto
        with n3 fail 0 show ?thesis by simp
      next
        case (Suc i)
        with j have "Suc i < length new" by simp
        with n4 len Suc show ?thesis by simp
      qed
    qed
    with step n1 n2 g show ?thesis
      by (intro exI [of _ "(m, ?p) # new"]) simp
  qed
qed

lemma attempts_all_malformed:
  assumes "\<forall>k p. length (requests tr) \<le> k \<and> k < length (requests tr) + n \<longrightarrow> malformed W k m p"
  shows "\<exists>expr' err' tr'.
           attempts W df q m s n err e tr =
             (Done (expr', empty_frame, []),
              tr' @ [StCode expr', StError (lit ''Error executing query: '' @ str_error err')]) \<and>
           length (requests tr') = length (requests tr) + n \<and>
           (n = 0 \<longrightarrow> expr' = e \<and> err' = err) \<and>
           (0 < n \<longrightarrow> expr' \<noteq> [] \<and> err' \<noteq> None \<and> compile_expr W expr' = err')"
  using assms
proof (induction n arbitrary: err e tr)
  case 0
  show ?case by simp
next
  case (Suc n)
  let ?g = "get_polars_expression W q s m err tr"
  let ?p = "build_prompt q s err"
  have ex: "fst ?g = attempt_expr W (length (requests tr)) m ?p"
    by (rule gpe_expr)
  have len: "length (requests (snd ?g)) = Suc (length (requests tr))"
    by (simp add: gpe_requests)
  from Suc.prems have "malformed W (length (requests tr)) m ?p"
    by simp
  with ex obtain x where ne: "fst ?g \<noteq> []" and c: "compile_expr W (fst ?g) = Some x"
    by (auto simp: malformed_def)
  then have x: "try_expression W df (fst ?g) = Done (Inl x)"
    by (simp add: try_expression_def)
  have step: "attempts W df q m s (Suc n) err e tr =
              attempts W df q m s n (Some x) (fst ?g) (snd ?g)"
    by (rule attempts_retry [OF ne x])
  have "\<forall>k p. length (requests (snd ?g)) \<le> k \<and> k < length (requests (snd ?g)) + n
          \<longrightarrow> malformed W k m p"
    using Suc.prems len by simp
  from Suc.IH [OF this, of "Some x" "fst ?g"]
  obtain expr' err' tr' where
    r: "attempts W df q m s n (Some x) (fst ?g) (snd ?g) =
             (Done (expr', empty_frame, []),
              tr' @ [StCode expr', StError (lit ''Error executing query: '' @ str_error err')])"
    and l: "length (requests tr') = length (requests (snd ?g)) + n"
    and z: "n = 0 \<longrightarrow> expr' = fst ?g \<and> err' = Some x"
    and p: "0 < n \<longrightarrow> expr' \<noteq> [] \<and> err' \<noteq> None \<and> compile_expr W expr' = err'"
    by blast
  have "expr' \<noteq> [] \<and> err' \<noteq> None \<and> compile_expr W expr' = err'"
    using z p ne c by (cases n) auto
  with step r l len show ?case
    by (intro exI [of _ expr'] exI [of _ err'] exI [of _ tr']) simp
qed

lemma clean_unclosed: "clean_reply (lit ''df.filter('') = lit ''df.filter(''"
  by (simp add: clean_reply_def strip_def strip_chars_def whitespace_def startswith_def lit_def)

lemma clean_df: "clean_reply (lit ''df'') = lit ''df''"
  by (simp add: clean_reply_def strip_def strip_chars_def whitespace_def startswith_def lit_def)

lemma all_malformed: "malformed world_malformed k model prompt"
  by (simp add: malformed_def attempt_expr_def world_malformed_def example_world_def clean_unclosed)
     (simp add: lit_def)

text \<open>
  Claim C3. For every query, if the dataset has no row, \<open>query_boats\<close> returns the empty
  result (empty expression, empty frame, no display column) and sends no request to the
  expression generator.
\<close>

theorem empty_dataset_short_circuit:
  "is_empty df \<Longrightarrow>
     query_boats W df query model max_retries = (Done ([], empty_frame, []), []) \<and>
     requests (snd (query_boats W df query model max_retries)) = []"
  by (simp add: query_boats_def requests_def)

theorem empty_dataset_short_circuit_witness:
  "is_empty (boats 0) \<and>
   query_boats example_world (boats 0) a_query a_model 2 = (Done ([], empty_frame, []), []) \<and>
   requests (snd (query_boats example_world (boats 0) a_query a_model 2)) = []"
proof -
  have h: "is_empty (boats 0)"
    by (simp add: is_empty_def boats_def)
  show ?thesis
    by (rule conjI [OF h empty_dataset_short_circuit [OF h]])
qed

text \<open>
  Claim C5. If, on any attempt, the generator gives the empty expression (the service
  failed or the reply is empty once cleaned), \<open>query_boats\<close> returns the empty result at
  once: the request of this attempt is the last one, however many rounds are left.
\<close>

theorem empty_generation_is_terminal:
  assumes "attempt_expr W (length (requests trace)) model (build_prompt query df_head_str error) = []"
  shows "attempts W df query model df_head_str (Suc n) error expr trace =
           (Done ([], empty_frame, []),
            snd (get_polars_expression W query df_head_str model error trace)) \<and>
         requests (snd (attempts W df query model df_head_str (Suc n) error expr trace)) =
           requests trace @ [(model, build_prompt query df_head_str error)]"
proof -
  have "fst (get_polars_expression W query df_head_str model error trace) = []"
    using assms by (simp add: gpe_expr)
  then have "attempts W df query model df_head_str (Suc n) error expr trace =
           (Done ([], empty_frame, []),
            snd (get_polars_expression W query df_head_str model error trace))"
    by (simp del: attempts.simps add: attempts_Suc Let_def)
  then show ?thesis
    by (simp del: attempts.simps add: gpe_requests)
qed

theorem empty_generation_is_terminal_witness:
  "attempt_expr world_down (length (requests [])) a_model
     (build_prompt a_query (lit ''name price'') None) = [] \<and>
   attempts world_down (boats 1) a_query a_model (lit ''name price'') (Suc 2) None [] [] =
      (Done ([], empty_frame, []),
       snd (get_polars_expression world_down a_query (lit ''name price'') a_model None [])) \<and>
   requests (snd (attempts world_down (boats 1) a_query a_model (lit ''name price'') (Suc 2) None [] [])) =
      requests [] @ [(a_model, build_prompt a_query (lit ''name price'') None)]"
proof -
  have h: "attempt_expr world_down (length (requests [])) a_model
     (build_prompt a_query (lit ''name price'') None) = []"
    by (simp add: attempt_expr_def world_down_def example_world_def)
  show ?thesis
    by (rule conjI [OF h empty_generation_is_terminal [OF h]])
qed

lemma query_boats_requests:
  "\<exists>new. requests (snd (query_boats W df q m r)) = new \<and>
          length new \<le> nat (r + 1) \<and>
          (\<forall>j. Suc j < length new \<longrightarrow>
             (\<exists>x. attempt_failure W df (attempt_expr W j m (snd (new ! j))) = Some x \<and>
                  snd (new ! Suc j) = build_prompt q (to_string W (head 5 df)) (Some x)))"
proof (cases "is_empty df")
  case True
  then show ?thesis
    by (simp add: query_boats_def requests_def)
next
  case False
  from attempts_requests [of W df q m "to_string W (head 5 df)" "nat (r + 1)" None "[]" "[]"]
  obtain new where
    "requests (snd (attempts W df q m (to_string W (head 5 df)) (nat (r + 1)) None [] [])) =
       requests [] @ new"
    and "length new \<le> nat (r + 1)"
    and "\<forall>j. Suc j < length new \<longrightarrow>
             (\<exists>x. attempt_failure W df
                    (attempt_expr W (length (requests []) + j) m (snd (new ! j))) = Some x \<and>
                  snd (new ! Suc j) = build_prompt q (to_string W (head 5 df)) (Some x))"
    by blast
  with False show ?thesis
    by (simp add: query_boats_def requests_def Let_def)
qed

text \<open>
  Claim C2. For every world, frame, query and model, \<open>query_boats\<close> calls the generator
  at most \<open>max_retries + 1\<close> times; whenever a call \<open>k + 1\<close> is made, attempt \<open>k\<close> failed
  (at \<open>compile\<close> or at \<open>eval\<close>) and the text of that failure is contained in the prompt of call
  \<open>k + 1\<close>; and with \<open>max_retries = 2\<close>, when every one of the first three generations is a
  non-empty text that \<open>compile\<close> rejects, the run ends exhausted after exactly three calls,
  showing the last expression and the last error.
\<close>

theorem retry_bound_and_feedback:
  "(0 \<le> max_retries \<longrightarrow>
      int (length (requests (snd (query_boats W df query model max_retries)))) \<le> max_retries + 1) \<and>
   (\<forall>k. Suc k < length (requests (snd (query_boats W df query model max_retries))) \<longrightarrow>
      (\<exists>x. attempt_failure W df
             (attempt_expr W k model
                (snd (requests (snd (query_boats W df query model max_retries)) ! k))) = Some x \<and>
           sublist x (snd (requests (snd (query_boats W df query model max_retries)) ! Suc k)))) \<and>
   (\<not> is_empty df \<and> (\<forall>k prompt. k < 3 \<longrightarrow> malformed W k model prompt) \<longrightarrow>
      (\<exists>expr x tr.
         query_boats W df query model 2 =
           (Done (expr, empty_frame, []),
            tr @ [StCode expr, StError (lit ''Error executing query: '' @ x)]) \<and>
         expr \<noteq> [] \<and> compile_expr W expr = Some x \<and> length (requests tr) = 3 \<and>
         length (requests (snd (query_boats W df query model 2))) = 3))"
proof (intro conjI impI allI)
  assume "0 \<le> max_retries"
  with query_boats_requests [of W df query model max_retries]
  show "int (length (requests (snd (query_boats W df query model max_retries)))) \<le> max_retries + 1"
    by auto
next
  fix k
  assume k: "Suc k < length (requests (snd (query_boats W df query model max_retries)))"
  with query_boats_requests [of W df query model max_retries]
  obtain x where
    "attempt_failure W df
       (attempt_expr W k model
          (snd (requests (snd (query_boats W df query model max_retries)) ! k))) = Some x"
    and "snd (requests (snd (query_boats W df query model max_retries)) ! Suc k) =
         build_prompt query (to_string W (head 5 df)) (Some x)"
    by auto
  then show "\<exists>x. attempt_failure W df
             (attempt_expr W k model
                (snd (requests (snd (query_boats W df query model max_retries)) ! k))) = Some x \<and>
           sublist x (snd (requests (snd (query_boats W df query model max_retries)) ! Suc k))"
    using prompt_has_error [of x query "to_string W (head 5 df)"] by auto
next
  assume a: "\<not> is_empty df \<and> (\<forall>k prompt. k < 3 \<longrightarrow> malformed W k model prompt)"
  then have "\<forall>k p. length (requests []) \<le> k \<and> k < length (requests []) + 3 \<longrightarrow> malformed W k model p"
    by (simp add: requests_def)
  from attempts_all_malformed [OF this, of df query "to_string W (head 5 df)" None "[]"]
  obtain expr' err' tr' where
    r: "attempts W df query model (to_string W (head 5 df)) 3 None [] [] =
             (Done (expr', empty_frame, []),
              tr' @ [StCode expr', StError (lit ''Error executing query: '' @ str_error err')])"
    and l: "length (requests tr') = length (requests []) + 3"
    and p: "expr' \<noteq> [] \<and> err' \<noteq> None \<and> compile_expr W expr' = err'"
    by auto
  from p obtain x where x: "err' = Some x" by auto
  have q: "query_boats W df query model 2 =
             (Done (expr', empty_frame, []),
              tr' @ [StCode expr', StError (lit ''Error executing query: '' @ x)])"
    using a r x by (simp add: query_boats_def str_error_def del: attempts.simps)
  have "length (requests (snd (query_boats W df query model 2))) = 3"
    using q l by (simp add: requests_def)
  with q l p x show "\<exists>expr x tr.
         query_boats W df query model 2 =
           (Done (expr, empty_frame, []),
            tr @ [StCode expr, StError (lit ''Error executing query: '' @ x)]) \<and>
         expr \<noteq> [] \<and> compile_expr W expr = Some x \<and> length (requests tr) = 3 \<and>
         length (requests (snd (query_boats W df query model 2))) = 3"
    by (intro exI [of _ expr'] exI [of _ x] exI [of _ tr']) (simp add: requests_def)
qed

theorem retry_bound_and_feedback_witness:
  "(0::int) \<le> 2 \<and>
   int (length (requests (snd (query_boats world_malformed (boats 1) a_query a_model 2)))) \<le> 2 + 1 \<and>
   \<not> is_empty (boats 1) \<and>
   malformed world_malformed 0 a_model (build_prompt a_query (lit ''name price'') None) \<and>
   length (requests (snd (query_boats world_malformed (boats 1) a_query a_model 2))) = 3 \<and>
   (\<exists>x. attempt_failure world_malformed (boats 1)
          (attempt_expr world_malformed 0 a_model
             (snd (requests (snd (query_boats world_malformed (boats 1) a_query a_model 2)) ! 0))) = Some x \<and>
        sublist x (snd (requests (snd (query_boats world_malformed (boats 1) a_query a_model 2)) ! Suc 0)))"
proof -
  note t = retry_bound_and_feedback [of 2 world_malformed "boats 1" a_query a_model]
  have h0: "(0::int) \<le> 2" by simp
  have h1: "\<not> is_empty (boats 1)"
    by (simp add: is_empty_def boats_def)
  have h2: "\<forall>k prompt. k < 3 \<longrightarrow> malformed world_malformed k a_model prompt"
    by (simp add: all_malformed)
  from t have a: "int (length (requests (snd (query_boats world_malformed (boats 1) a_query a_model 2)))) \<le> 2 + 1"
    using h0 by blast
  from t h1 h2 have c: "length (requests (snd (query_boats world_malformed (boats 1) a_query a_model 2))) = 3"
    by blast
  then have "Suc 0 < length (requests (snd (query_boats world_malformed (boats 1) a_query a_model 2)))"
    by simp
  with t have b: "\<exists>x. attempt_failure world_malformed (boats 1)
          (attempt_expr world_malformed 0 a_model
             (snd (requests (snd (query_boats world_malformed (boats 1) a_query a_model 2)) ! 0))) = Some x \<and>
        sublist x (snd (requests (snd (query_boats world_malformed (boats 1) a_query a_model 2)) ! Suc 0))"
    by blast
  have m: "malformed world_malformed 0 a_model (build_prompt a_query (lit ''name price'') None)"
    by (simp add: all_malformed)
  from h0 a h1 m c b show ?thesis by blast
qed

lemma gpe_trace:
  "fst (get_polars_expression W q s m err tr) \<noteq> [] \<Longrightarrow>
   snd (get_polars_expression W q s m err tr) = tr @ [Generate m (build_prompt q s err)]"
  by (simp add: get_polars_expression_def Let_def split: reply.splits)

lemma clean_sum: "clean_reply (lit ''sum(iter(int, 1))'') = lit ''sum(iter(int, 1))''"
  by (simp add: clean_reply_def strip_def strip_chars_def whitespace_def startswith_def lit_def)

lemma clean_div: "clean_reply (lit ''1/0'') = lit ''1/0''"
  by (simp add: clean_reply_def strip_def strip_chars_def whitespace_def startswith_def lit_def)

lemma attempts_hang:
  assumes "attempt_expr W (length (requests trace)) model (build_prompt query df_head_str error) = e"
    and "e \<noteq> []" and "compile_expr W e = None"
    and "eval_expr W [] (local_ns df) e = NeverReturns"
  shows "attempts W df query model df_head_str (Suc n) error expr trace =
           (Hangs, trace @ [Generate model (build_prompt query df_head_str error)])"
proof -
  from assms(1) have f: "fst (get_polars_expression W query df_head_str model error trace) = e"
    by (simp add: gpe_expr)
  with assms(2) have s: "snd (get_polars_expression W query df_head_str model error trace) =
      trace @ [Generate model (build_prompt query df_head_str error)]"
    by (simp add: gpe_trace)
  from assms(3,4) have "try_expression W df e = Hangs"
    by (simp add: try_expression_def)
  with assms(2) f s show ?thesis
    by (simp del: attempts.simps add: attempts_Suc Let_def)
qed

lemma attempts_raise:
  assumes "attempt_expr W (length (requests trace)) model (build_prompt query df_head_str error) = e"
    and "e \<noteq> []" and "compile_expr W e = None"
    and "eval_expr W [] (local_ns df) e = Raises x"
  shows "attempts W df query model df_head_str (Suc n) error expr trace =
           attempts W df query model df_head_str n (Some x) e
             (trace @ [Generate model (build_prompt query df_head_str error)])"
proof -
  from assms(1) have f: "fst (get_polars_expression W query df_head_str model error trace) = e"
    by (simp add: gpe_expr)
  with assms(2) have s: "snd (get_polars_expression W query df_head_str model error trace) =
      trace @ [Generate model (build_prompt query df_head_str error)]"
    by (simp add: gpe_trace)
  from assms(3,4) have "try_expression W df e = Done (Inl x)"
    by (simp add: try_expression_def)
  with assms(2) f s show ?thesis
    by (simp del: attempts.simps add: attempts_Suc Let_def)
qed

lemma hanging_round:
  "attempt_expr world_hanging k a_model prompt = lit ''sum(iter(int, 1))'' \<and>
   lit ''sum(iter(int, 1))'' \<noteq> [] \<and>
   compile_expr world_hanging (lit ''sum(iter(int, 1))'') = None \<and>
   eval_expr world_hanging [] (local_ns df) (lit ''sum(iter(int, 1))'') = NeverReturns"
  by (simp add: attempt_expr_def world_hanging_def example_world_def clean_sum) (simp add: lit_def)

lemma raising_round:
  "attempt_expr world_raising k a_model prompt = lit ''1/0'' \<and>
   lit ''1/0'' \<noteq> [] \<and>
   compile_expr world_raising (lit ''1/0'') = None \<and>
   eval_expr world_raising [] (local_ns df) (lit ''1/0'') = Raises (lit ''division by zero'')"
  by (simp add: attempt_expr_def world_raising_def example_world_def clean_div) (simp add: lit_def)

lemma one_boat: "\<not> is_empty (boats 1)"
  by (simp add: is_empty_def boats_def)

text \<open>
  Claim C4, as stated, fails: on \<open>world_hanging\<close>, where the service answers the expression
  \<open>sum(iter(int, 1))\<close>, whose evaluation does not end, \<open>query_boats\<close> does not come back.
  It has made one request, and no failure is handed to a next attempt.
\<close>

theorem unbounded_evaluation_counterexample:
  "query_boats world_hanging (boats 1) a_query a_model 2 =
     (Hangs, [Generate a_model (build_prompt a_query (lit ''name price'') None)])"
proof -
  have n: "nat (2 + 1) = Suc 2"
    by simp
  have w: "to_string world_hanging (head 5 (boats 1)) = lit ''name price''"
    by (simp add: world_hanging_def example_world_def)
  have r: "requests [] = []"
    by (simp add: requests_def)
  have "attempts world_hanging (boats 1) a_query a_model (lit ''name price'') (Suc 2) None [] [] =
          (Hangs, [] @ [Generate a_model (build_prompt a_query (lit ''name price'') None)])"
    by (rule attempts_hang [where e = "lit ''sum(iter(int, 1))''"])
       (simp_all add: hanging_round)
  with one_boat show ?thesis
    unfolding query_boats_def Let_def n w by simp
qed

text \<open>
  Claim C4, amended. \<open>query_boats\<close> evaluates a generated expression under no limit of
  time. In a round of the loop whose expression is not empty and compiles: when the
  evaluation does not come back, the round does not come back, and no failure is handed
  on; when the evaluation raises an exception of class \<open>Exception\<close>, the text of the
  exception is the error of the next round, an ordinary failure. In particular, when the
  evaluation of the first expression does not come back, \<open>query_boats\<close> does not come back
  and has made one request.
\<close>

theorem evaluation_has_no_ceiling:
  "(attempt_expr W (length (requests trace)) model (build_prompt query df_head_str error) = e \<and>
    e \<noteq> [] \<and> compile_expr W e = None \<and> eval_expr W [] (local_ns df) e = NeverReturns \<longrightarrow>
      attempts W df query model df_head_str (Suc n) error expr trace =
        (Hangs, trace @ [Generate model (build_prompt query df_head_str error)])) \<and>
   (attempt_expr W (length (requests trace)) model (build_prompt query df_head_str error) = e \<and>
    e \<noteq> [] \<and> compile_expr W e = None \<and> eval_expr W [] (local_ns df) e = Raises x \<longrightarrow>
      attempts W df query model df_head_str (Suc n) error expr trace =
        attempts W df query model df_head_str n (Some x) e
          (trace @ [Generate model (build_prompt query df_head_str error)])) \<and>
   (\<not> is_empty df \<and> 0 \<le> max_retries \<and>
    attempt_expr W 0 model (build_prompt query (to_string W (head 5 df)) None) = e \<and>
    e \<noteq> [] \<and> compile_expr W e = None \<and> eval_expr W [] (local_ns df) e = NeverReturns \<longrightarrow>
      query_boats W df query model max_retries =
        (Hangs, [Generate model (build_prompt query (to_string W (head 5 df)) None)]))"
proof (intro conjI impI)
  assume "attempt_expr W (length (requests trace)) model (build_prompt query df_head_str error) = e \<and>
    e \<noteq> [] \<and> compile_expr W e = None \<and> eval_expr W [] (local_ns df) e = NeverReturns"
  then show "attempts W df query model df_head_str (Suc n) error expr trace =
        (Hangs, trace @ [Generate model (build_prompt query df_head_str error)])"
    by (intro attempts_hang [where e = e]) simp_all
next
  assume "attempt_expr W (length (requests trace)) model (build_prompt query df_head_str error) = e \<and>
    e \<noteq> [] \<and> compile_expr W e = None \<and> eval_expr W [] (local_ns df) e = Raises x"
  then show "attempts W df query model df_head_str (Suc n) error expr trace =
        attempts W df query model df_head_str n (Some x) e
          (trace @ [Generate model (build_prompt query df_head_str error)])"
    by (intro attempts_raise [where e = e]) simp_all
next
  assume a: "\<not> is_empty df \<and> 0 \<le> max_retries \<and>
    attempt_expr W 0 model (build_prompt query (to_string W (head 5 df)) None) = e \<and>
    e \<noteq> [] \<and> compile_expr W e = None \<and> eval_expr W [] (local_ns df) e = NeverReturns"
  then have "0 \<le> max_retries"
    by blast
  then have n: "nat (max_retries + 1) = Suc (nat max_retries)"
    by arith
  have "attempts W df query model (to_string W (head 5 df)) (Suc (nat max_retries)) None [] [] =
          (Hangs, [] @ [Generate model (build_prompt query (to_string W (head 5 df)) None)])"
    using a by (intro attempts_hang [where e = e]) (simp_all add: requests_def)
  with a show "query_boats W df query model max_retries =
        (Hangs, [Generate model (build_prompt query (to_string W (head 5 df)) None)])"
    unfolding query_boats_def Let_def n by simp
qed

theorem evaluation_has_no_ceiling_witness:
  "attempts world_hanging (boats 1) a_query a_model (lit ''name price'') (Suc 2) None [] [] =
     (Hangs, [] @ [Generate a_model (build_prompt a_query (lit ''name price'') None)]) \<and>
   attempts world_raising (boats 1) a_query a_model (lit ''name price'') (Suc 2) None [] [] =
     attempts world_raising (boats 1) a_query a_model (lit ''name price'') 2
       (Some (lit ''division by zero'')) (lit ''1/0'')
       ([] @ [Generate a_model (build_prompt a_query (lit ''name price'') None)]) \<and>
   \<not> is_empty (boats 1) \<and> (0::int) \<le> 2 \<and>
   eval_expr world_hanging [] (local_ns (boats 1)) (lit ''sum(iter(int, 1))'') = NeverReturns \<and>
   query_boats world_hanging (boats 1) a_query a_model 2 =
     (Hangs, [Generate a_model
                (build_prompt a_query (to_string world_hanging (head 5 (boats 1))) None)])"
proof -
  note t1 = evaluation_has_no_ceiling
    [of world_hanging "[]" a_model a_query "lit ''name price''" None "lit ''sum(iter(int, 1))''"
        "boats 1" 2 "[]" "lit ''division by zero''" 2]
  note t2 = evaluation_has_no_ceiling
    [of world_raising "[]" a_model a_query "lit ''name price''" None "lit ''1/0''"
        "boats 1" 2 "[]" "lit ''division by zero''" 2]
  have h: "(0::int) \<le> 2"
    by simp
  from t1 hanging_round have c1:
    "attempts world_hanging (boats 1) a_query a_model (lit ''name price'') (Suc 2) None [] [] =
       (Hangs, [] @ [Generate a_model (build_prompt a_query (lit ''name price'') None)])"
    by blast
  from t2 raising_round have c2:
    "attempts world_raising (boats 1) a_query a_model (lit ''name price'') (Suc 2) None [] [] =
       attempts world_raising (boats 1) a_query a_model (lit ''name price'') 2
         (Some (lit ''division by zero'')) (lit ''1/0'')
         ([] @ [Generate a_model (build_prompt a_query (lit ''name price'') None)])"
    by blast
  from t1 hanging_round one_boat h have c3:
    "query_boats world_hanging (boats 1) a_query a_model 2 =
       (Hangs, [Generate a_model
                  (build_prompt a_query (to_string world_hanging (head 5 (boats 1))) None)])"
    by blast
  from c1 c2 one_boat h hanging_round c3 show ?thesis
    by blast
qed

section \<open>Properties of the evaluation namespace\<close>
















section \<open>Properties of the formatting\<close>

lemma round_half_even_le: "x \<le> of_int N \<Longrightarrow> round_half_even x \<le> N"
proof -
  assume a: "x \<le> of_int N"
  show ?thesis
  proof (cases "x = of_int N")
    case True
    then show ?thesis by (simp add: round_half_even_def)
  next
    case False
    with a have "x < of_int N" by simp
    then have "\<lfloor>x\<rfloor> < N" by (simp add: floor_less_iff)
    then show ?thesis by (simp add: round_half_even_def Let_def)
  qed
qed

lemma round_half_even_nonneg: "0 \<le> x \<Longrightarrow> 0 \<le> round_half_even x"
  by (simp add: round_half_even_def Let_def)

lemma pow2_pos: "0 < pow2 e"
  by (simp add: pow2_def)

lemma pow2_mult: "e \<le> int k \<Longrightarrow> pow2 e * 2 ^ nat (int k - e) = 2 ^ k"
proof (cases "0 \<le> e")
  case True
  assume "e \<le> int k"
  with True have "nat e + nat (int k - e) = k" by simp
  with True show ?thesis
    by (simp add: pow2_def power_add [symmetric])
next
  case False
  then have "nat (int k - e) = k + nat (- e)" by simp
  with False show ?thesis
    by (simp add: pow2_def power_add)
qed

lemma binade_le:
  assumes "0 < a" and "a \<le> 2 ^ k"
  shows "binade a \<le> int k"
proof (cases "1 \<le> a")
  case True
  from assms(2) have "\<lfloor>a\<rfloor> \<le> 2 ^ k"
    by (metis floor_mono floor_of_int of_int_numeral of_int_power)
  also have "\<dots> < (2::int) ^ nat (int k + 1)"
    by (simp add: nat_add_distrib)
  finally have "bitlen \<lfloor>a\<rfloor> \<le> int k + 1"
    by (simp add: bitlen_le_iff_power)
  with True show ?thesis
    by (simp add: binade_def)
next
  case False
  have "0 \<le> bitlen (\<lceil>1 / a\<rceil> - 1)"
    by (rule bitlen_nonneg)
  with False show ?thesis
    by (simp add: binade_def)
qed

lemma to_double_le:
  assumes "\<bar>r\<bar> \<le> 2 ^ k"
  shows "\<bar>to_double r\<bar> \<le> 2 ^ k"
proof (cases "r = 0")
  case True
  then show ?thesis by (simp add: to_double_def)
next
  case False
  define e where "e = max (binade \<bar>r\<bar>) (- 1022) - 52"
  define N :: int where "N = 2 ^ nat (int k - e)"
  from False assms have "binade \<bar>r\<bar> \<le> int k"
    by (intro binade_le) simp_all
  then have ek: "e \<le> int k"
    by (simp add: e_def)
  then have m: "pow2 e * of_int N = 2 ^ k"
    using pow2_mult [of e k] by (simp add: N_def)
  have p: "0 < pow2 e"
    by (rule pow2_pos)
  from assms m have "\<bar>r\<bar> \<le> pow2 e * of_int N"
    by simp
  with p have "\<bar>r\<bar> / pow2 e \<le> of_int N"
    by (simp add: pos_divide_le_eq mult.commute)
  then have le: "round_half_even (\<bar>r\<bar> / pow2 e) \<le> N"
    by (rule round_half_even_le)
  have ge: "0 \<le> round_half_even (\<bar>r\<bar> / pow2 e)"
    using p by (intro round_half_even_nonneg) simp
  have "\<bar>to_double r\<bar> = of_int (round_half_even (\<bar>r\<bar> / pow2 e)) * pow2 e"
    using False p ge by (simp add: to_double_def Let_def e_def abs_mult abs_sgn_eq)
  also have "\<dots> \<le> of_int N * pow2 e"
    using le p by (simp add: mult_right_mono)
  also have "\<dots> = 2 ^ k"
    using m by (simp add: mult.commute)
  finally show ?thesis .
qed

lemma no_overflow: "\<bar>r\<bar> \<le> 2 ^ 1023 \<Longrightarrow> \<not> overflows r"
proof -
  assume "\<bar>r\<bar> \<le> 2 ^ 1023"
  then have "\<bar>to_double r\<bar> \<le> 2 ^ 1023"
    by (rule to_double_le)
  also have "\<dots> < (2::rat) ^ 1024"
    by (rule power_strict_increasing) simp_all
  finally show ?thesis
    by (simp add: overflows_def)
qed

lemma no_overflow_div:
  assumes "\<bar>r\<bar> \<le> 2 ^ 1023" and "1 \<le> d"
  shows "\<not> overflows (r / of_int d)"
proof -
  from assms(2) have "\<bar>r / of_int d\<bar> \<le> \<bar>r\<bar>"
    by (simp add: abs_divide pos_divide_le_eq mult_le_cancel_left1)
  with assms(1) have "\<bar>r / of_int d\<bar> \<le> 2 ^ 1023"
    by (rule order_trans [rotated])
  then show ?thesis
    by (rule no_overflow)
qed

lemma trunc_integer: "is_integer x \<Longrightarrow> of_int (trunc x) = x"
  by (auto simp add: is_integer_def trunc_def)

lemma price_cols_same: "f3_PRICE_COLS = PRICE_COLS"
  by (simp add: f3_PRICE_COLS_def PRICE_COLS_def)

lemma format_value_price:
  assumes "col \<in> set PRICE_COLS" and "is_number v" and "\<bar>num v\<bar> \<le> 2 ^ 1023"
  shows "format_value W v col =
     Inr (if 1000000 \<le> num v then euro @ format_f 1 False (to_double (num v / 1000000)) @ lit ''M''
          else if 1000 \<le> num v then euro @ format_f 0 False (to_double (num v / 1000)) @ lit ''K''
          else euro @ format_f 0 True
                 (if is_float v \<and> \<not> is_integer (num v) then num v else to_double (num v)))"
proof -
  define v' where "v' = (if is_float v \<and> is_integer (num v) then PInt (trunc (num v)) else v)"
  have n: "num v' = num v"
    by (simp add: v'_def trunc_integer)
  have f: "is_float v' = (is_float v \<and> \<not> is_integer (num v))"
    by (auto simp add: v'_def)
  have o: "\<not> overflows (num v)"
    using assms(3) by (rule no_overflow)
  have o3: "\<not> overflows (num v / 1000)"
    using no_overflow_div [OF assms(3), of 1000] by simp
  have o6: "\<not> overflows (num v / 1000000)"
    using no_overflow_div [OF assms(3), of 1000000] by simp
  from assms(2) have "v \<noteq> PNone"
    by auto
  then have "format_value W v col =
      (if 1000000 \<le> num v' then
         map_sum id (\<lambda>q. euro @ format_f 1 False q @ lit ''M'') (true_div v' 1000000)
       else if 1000 \<le> num v' then
         map_sum id (\<lambda>q. euro @ format_f 0 False q @ lit ''K'') (true_div v' 1000)
       else map_sum id (\<lambda>x. euro @ format_f 0 True x) (to_float v'))"
    using assms(1,2) by (simp add: format_value_def v'_def Let_def)
  then show ?thesis
    using o o3 o6 by (simp add: n f true_div_def to_float_def)
qed

lemma f3_cell_price:
  assumes "col \<in> set PRICE_COLS" and "is_number v" and "\<bar>num v\<bar> \<le> 2 ^ 1023"
  shows "f3_cell W col v =
     Inr (if 1000000 \<le> num v then euro @ format_f 1 False (to_double (num v / 1000000)) @ lit ''M''
          else if 1000 \<le> num v then euro @ format_f 0 False (to_double (num v / 1000)) @ lit ''K''
          else euro @ format_f 0 True (if is_float v then num v else to_double (num v)))"
proof -
  have o: "\<not> overflows (num v)"
    using assms(3) by (rule no_overflow)
  have o3: "\<not> overflows (num v / 1000)"
    using no_overflow_div [OF assms(3), of 1000] by simp
  have o6: "\<not> overflows (num v / 1000000)"
    using no_overflow_div [OF assms(3), of 1000000] by simp
  show ?thesis
    using assms(1,2) o o3 o6
    by (simp add: f3_cell_def price_cols_same Let_def true_div_def to_float_def)
qed

lemma format_examples:
  "format_f (Suc 0) False (to_double (5 / 2)) = lit ''2.5''"
  "format_f 0 False (to_double 45) = lit ''45''"
  "format_f 0 True (to_double 999) = lit ''999''"
  by code_simp+

lemma price_is_price: "lit ''price'' \<in> set PRICE_COLS"
  by (simp add: PRICE_COLS_def)

lemma half_examples:
  "to_double (1999 / 2) = 1999 / 2" "format_f 0 True (1999 / 2) = lit ''1,000''"
  by code_simp+

text \<open>
  Claim C8. The text of a cell of a price column, by \<open>format_value\<close> of app.py and by
  \<open>bullets\<close> of filters3.py, is \<open>N/A\<close> for a null; for a number of at least 1,000,000 the
  euro sign, the quotient by 1,000,000 with one decimal and \<open>M\<close>; for a number of at least
  1,000 and below 1,000,000 the euro sign, the quotient by 1,000 with no decimal and \<open>K\<close>;
  for any other number the euro sign and the number with no decimal, in groups of three.
  The quotients are those of Python's floats, and an integer is formatted as the float
  nearest to it. The numbers of a frame are floats and integers of at most 128 bits:
  up to \<open>2 ^ 1023\<close> in magnitude no conversion of an integer to a float overflows. In particular 2,500,000 gives \<open>2.5M\<close>, 45,000 gives \<open>45K\<close> and 999
  gives \<open>999\<close> after the euro sign.
\<close>

theorem price_formatting:
  "format_value W PNone col = Inr (lit ''N/A'') \<and>
   f3_cell W col PNone = Inr (lit ''N/A'') \<and>
   (col \<in> set PRICE_COLS \<and> is_number v \<and> \<bar>num v\<bar> \<le> 2 ^ 1023 \<and> 1000000 \<le> num v \<longrightarrow>
      format_value W v col =
        Inr (euro @ format_f 1 False (to_double (num v / 1000000)) @ lit ''M'') \<and>
      f3_cell W col v =
        Inr (euro @ format_f 1 False (to_double (num v / 1000000)) @ lit ''M'')) \<and>
   (col \<in> set PRICE_COLS \<and> is_number v \<and> \<bar>num v\<bar> \<le> 2 ^ 1023 \<and>
    1000 \<le> num v \<and> num v < 1000000 \<longrightarrow>
      format_value W v col =
        Inr (euro @ format_f 0 False (to_double (num v / 1000)) @ lit ''K'') \<and>
      f3_cell W col v =
        Inr (euro @ format_f 0 False (to_double (num v / 1000)) @ lit ''K'')) \<and>
   (col \<in> set PRICE_COLS \<and> is_number v \<and> \<bar>num v\<bar> \<le> 2 ^ 1023 \<and>
    (is_float v \<longrightarrow> to_double (num v) = num v) \<and> num v < 1000 \<longrightarrow>
      format_value W v col = Inr (euro @ format_f 0 True (to_double (num v))) \<and>
      f3_cell W col v = Inr (euro @ format_f 0 True (to_double (num v)))) \<and>
   format_value W (PInt 2500000) (lit ''price'') = Inr (euro @ lit ''2.5M'') \<and>
   format_value W (PInt 45000) (lit ''price'') = Inr (euro @ lit ''45K'') \<and>
   format_value W (PInt 999) (lit ''price'') = Inr (euro @ lit ''999'') \<and>
   f3_cell W (lit ''price'') (PInt 2500000) = Inr (euro @ lit ''2.5M'') \<and>
   f3_cell W (lit ''price'') (PInt 45000) = Inr (euro @ lit ''45K'') \<and>
   f3_cell W (lit ''price'') (PInt 999) = Inr (euro @ lit ''999'')"
proof -
  have n: "format_value W PNone col = Inr (lit ''N/A'')"
    by (simp add: format_value_def)
  have n3: "f3_cell W col PNone = Inr (lit ''N/A'')"
    by (simp add: f3_cell_def f3_format_value_def)
  have m: "col \<in> set PRICE_COLS \<and> is_number v \<and> \<bar>num v\<bar> \<le> 2 ^ 1023 \<and> 1000000 \<le> num v \<longrightarrow>
      format_value W v col =
        Inr (euro @ format_f 1 False (to_double (num v / 1000000)) @ lit ''M'') \<and>
      f3_cell W col v =
        Inr (euro @ format_f 1 False (to_double (num v / 1000000)) @ lit ''M'')"
  proof (intro impI)
    assume a: "col \<in> set PRICE_COLS \<and> is_number v \<and> \<bar>num v\<bar> \<le> 2 ^ 1023 \<and> 1000000 \<le> num v"
    then have c: "col \<in> set PRICE_COLS" and i: "is_number v" and b: "\<bar>num v\<bar> \<le> 2 ^ 1023"
      and g: "1000000 \<le> num v"
      by blast+
    show "format_value W v col =
        Inr (euro @ format_f 1 False (to_double (num v / 1000000)) @ lit ''M'') \<and>
      f3_cell W col v =
        Inr (euro @ format_f 1 False (to_double (num v / 1000000)) @ lit ''M'')"
      using g by (simp add: format_value_price [OF c i b] f3_cell_price [OF c i b])
  qed
  have k: "col \<in> set PRICE_COLS \<and> is_number v \<and> \<bar>num v\<bar> \<le> 2 ^ 1023 \<and>
    1000 \<le> num v \<and> num v < 1000000 \<longrightarrow>
      format_value W v col =
        Inr (euro @ format_f 0 False (to_double (num v / 1000)) @ lit ''K'') \<and>
      f3_cell W col v =
        Inr (euro @ format_f 0 False (to_double (num v / 1000)) @ lit ''K'')"
  proof (intro impI)
    assume a: "col \<in> set PRICE_COLS \<and> is_number v \<and> \<bar>num v\<bar> \<le> 2 ^ 1023 \<and>
      1000 \<le> num v \<and> num v < 1000000"
    then have c: "col \<in> set PRICE_COLS" and i: "is_number v" and b: "\<bar>num v\<bar> \<le> 2 ^ 1023"
      and g: "1000 \<le> num v" "\<not> 1000000 \<le> num v"
      by auto
    show "format_value W v col =
        Inr (euro @ format_f 0 False (to_double (num v / 1000)) @ lit ''K'') \<and>
      f3_cell W col v =
        Inr (euro @ format_f 0 False (to_double (num v / 1000)) @ lit ''K'')"
      using g by (simp add: format_value_price [OF c i b] f3_cell_price [OF c i b])
  qed
  have s: "col \<in> set PRICE_COLS \<and> is_number v \<and> \<bar>num v\<bar> \<le> 2 ^ 1023 \<and>
    (is_float v \<longrightarrow> to_double (num v) = num v) \<and> num v < 1000 \<longrightarrow>
      format_value W v col = Inr (euro @ format_f 0 True (to_double (num v))) \<and>
      f3_cell W col v = Inr (euro @ format_f 0 True (to_double (num v)))"
  proof (intro impI)
    assume a: "col \<in> set PRICE_COLS \<and> is_number v \<and> \<bar>num v\<bar> \<le> 2 ^ 1023 \<and>
      (is_float v \<longrightarrow> to_double (num v) = num v) \<and> num v < 1000"
    then have c: "col \<in> set PRICE_COLS" and i: "is_number v" and b: "\<bar>num v\<bar> \<le> 2 ^ 1023"
      and d: "is_float v \<longrightarrow> to_double (num v) = num v"
      and g: "\<not> 1000 \<le> num v" "\<not> 1000000 \<le> num v"
      by auto
    show "format_value W v col = Inr (euro @ format_f 0 True (to_double (num v))) \<and>
      f3_cell W col v = Inr (euro @ format_f 0 True (to_double (num v)))"
      using g d by (auto simp add: format_value_price [OF c i b] f3_cell_price [OF c i b])
  qed
  have b: "\<bar>num (PInt 2500000)\<bar> \<le> 2 ^ 1023" "\<bar>num (PInt 45000)\<bar> \<le> 2 ^ 1023"
    "\<bar>num (PInt 999)\<bar> \<le> 2 ^ 1023"
    by simp_all
  have e1: "format_value W (PInt 2500000) (lit ''price'') = Inr (euro @ lit ''2.5M'')"
    using format_value_price [OF price_is_price _ b(1), of W]
    by (simp add: format_examples lit_def)
  have e2: "format_value W (PInt 45000) (lit ''price'') = Inr (euro @ lit ''45K'')"
    using format_value_price [OF price_is_price _ b(2), of W]
    by (simp add: format_examples lit_def)
  have e3: "format_value W (PInt 999) (lit ''price'') = Inr (euro @ lit ''999'')"
    using format_value_price [OF price_is_price _ b(3), of W]
    by (simp add: format_examples lit_def)
  have e4: "f3_cell W (lit ''price'') (PInt 2500000) = Inr (euro @ lit ''2.5M'')"
    using f3_cell_price [OF price_is_price _ b(1), of W]
    by (simp add: format_examples lit_def)
  have e5: "f3_cell W (lit ''price'') (PInt 45000) = Inr (euro @ lit ''45K'')"
    using f3_cell_price [OF price_is_price _ b(2), of W]
    by (simp add: format_examples lit_def)
  have e6: "f3_cell W (lit ''price'') (PInt 999) = Inr (euro @ lit ''999'')"
    using f3_cell_price [OF price_is_price _ b(3), of W]
    by (simp add: format_examples lit_def)
  from n n3 m k s e1 e2 e3 e4 e5 e6 show ?thesis
    by (intro conjI)
qed

theorem price_formatting_witness:
  "lit ''price'' \<in> set PRICE_COLS \<and>
   is_number (PInt 2500000) \<and> \<bar>num (PInt 2500000)\<bar> \<le> 2 ^ 1023 \<and> 1000000 \<le> num (PInt 2500000) \<and>
   format_value example_world (PInt 2500000) (lit ''price'') =
     Inr (euro @ format_f 1 False (to_double (num (PInt 2500000) / 1000000)) @ lit ''M'') \<and>
   f3_cell example_world (lit ''price'') (PInt 2500000) =
     Inr (euro @ format_f 1 False (to_double (num (PInt 2500000) / 1000000)) @ lit ''M'') \<and>
   is_number (PInt 45000) \<and> \<bar>num (PInt 45000)\<bar> \<le> 2 ^ 1023 \<and>
   1000 \<le> num (PInt 45000) \<and> num (PInt 45000) < 1000000 \<and>
   format_value example_world (PInt 45000) (lit ''price'') =
     Inr (euro @ format_f 0 False (to_double (num (PInt 45000) / 1000)) @ lit ''K'') \<and>
   f3_cell example_world (lit ''price'') (PInt 45000) =
     Inr (euro @ format_f 0 False (to_double (num (PInt 45000) / 1000)) @ lit ''K'') \<and>
   is_number (PFloat (1999 / 2)) \<and> \<bar>num (PFloat (1999 / 2))\<bar> \<le> 2 ^ 1023 \<and>
   to_double (num (PFloat (1999 / 2))) = num (PFloat (1999 / 2)) \<and> num (PFloat (1999 / 2)) < 1000 \<and>
   format_value example_world (PFloat (1999 / 2)) (lit ''price'') =
     Inr (euro @ format_f 0 True (to_double (num (PFloat (1999 / 2))))) \<and>
   f3_cell example_world (lit ''price'') (PFloat (1999 / 2)) =
     Inr (euro @ format_f 0 True (to_double (num (PFloat (1999 / 2))))) \<and>
   format_f 0 True (to_double (num (PFloat (1999 / 2)))) = lit ''1,000''"
proof -
  note t1 = price_formatting
    [where W = example_world and col = "lit ''price''" and v = "PInt 2500000"]
  note t2 = price_formatting
    [where W = example_world and col = "lit ''price''" and v = "PInt 45000"]
  note t3 = price_formatting
    [where W = example_world and col = "lit ''price''" and v = "PFloat (1999 / 2)"]
  have h1: "lit ''price'' \<in> set PRICE_COLS \<and> is_number (PInt 2500000) \<and>
      \<bar>num (PInt 2500000)\<bar> \<le> 2 ^ 1023 \<and> 1000000 \<le> num (PInt 2500000)"
    by (simp add: price_is_price)
  have h2: "lit ''price'' \<in> set PRICE_COLS \<and> is_number (PInt 45000) \<and>
      \<bar>num (PInt 45000)\<bar> \<le> 2 ^ 1023 \<and> 1000 \<le> num (PInt 45000) \<and> num (PInt 45000) < 1000000"
    by (simp add: price_is_price)
  have h3: "lit ''price'' \<in> set PRICE_COLS \<and> is_number (PFloat (1999 / 2)) \<and>
      \<bar>num (PFloat (1999 / 2))\<bar> \<le> 2 ^ 1023 \<and>
      to_double (num (PFloat (1999 / 2))) = num (PFloat (1999 / 2)) \<and>
      num (PFloat (1999 / 2)) < 1000"
    by (simp add: price_is_price half_examples)
  have h4: "format_f 0 True (to_double (num (PFloat (1999 / 2)))) = lit ''1,000''"
    by (simp add: half_examples)
  from t1 h1 have c1: "format_value example_world (PInt 2500000) (lit ''price'') =
       Inr (euro @ format_f 1 False (to_double (num (PInt 2500000) / 1000000)) @ lit ''M'') \<and>
     f3_cell example_world (lit ''price'') (PInt 2500000) =
       Inr (euro @ format_f 1 False (to_double (num (PInt 2500000) / 1000000)) @ lit ''M'')"
    by blast
  from t2 h2 have c2: "format_value example_world (PInt 45000) (lit ''price'') =
       Inr (euro @ format_f 0 False (to_double (num (PInt 45000) / 1000)) @ lit ''K'') \<and>
     f3_cell example_world (lit ''price'') (PInt 45000) =
       Inr (euro @ format_f 0 False (to_double (num (PInt 45000) / 1000)) @ lit ''K'')"
    by blast
  from t3 h3 have c3: "format_value example_world (PFloat (1999 / 2)) (lit ''price'') =
       Inr (euro @ format_f 0 True (to_double (num (PFloat (1999 / 2))))) \<and>
     f3_cell example_world (lit ''price'') (PFloat (1999 / 2)) =
       Inr (euro @ format_f 0 True (to_double (num (PFloat (1999 / 2)))))"
    by blast
  from h1 c1 h2 c2 h3 c3 h4 show ?thesis
    by blast
qed

section \<open>Properties of the number of rows shown\<close>

lemma boat_count_append: "boat_count (a @ b) = boat_count a + boat_count b"
  by (simp add: boat_count_def)

lemma f3_fields_count: "boat_count (fst (f3_fields W r cols)) = 0"
  by (induction cols) (auto simp add: boat_count_def split: option.splits sum.splits prod.splits)

lemma f3_boats_count:
  assumes "\<forall>r \<in> set rs. snd (f3_fields W r cols) = None"
  shows "snd (f3_boats W cols i rs) = None \<and> boat_count (fst (f3_boats W cols i rs)) = length rs"
  using assms
proof (induction rs arbitrary: i)
  case Nil
  then show ?case by (simp add: boat_count_def)
next
  case (Cons r rs)
  then have n: "snd (f3_fields W r cols) = None"
    by simp
  from Cons have "snd (f3_boats W cols (Suc i) rs) = None \<and>
      boat_count (fst (f3_boats W cols (Suc i) rs)) = length rs"
    by simp
  moreover have "boat_count (fst (f3_fields W r cols)) = 0"
    by (rule f3_fields_count)
  ultimately show ?case
    using n
    by (cases "f3_fields W r cols"; cases "f3_boats W cols (Suc i) rs")
       (simp add: boat_count_append, simp add: boat_count_def)
qed

lemma query_boats_cap_attempts:
  "fst (attempts W df q m s n err e tr) = Done (e', res, cols) \<Longrightarrow> length (rows res) \<le> 20"
proof (induction n arbitrary: err e tr)
  case 0
  then show ?case by (auto simp add: empty_frame_def)
next
  case (Suc n)
  then show ?case
    by (auto simp del: attempts.simps
        simp add: attempts_Suc Let_def try_expression_def empty_frame_def head_def
        split: if_splits run.splits sum.splits option.splits outcome.splits)
qed

lemma query_boats_cap:
  "fst (query_boats W df q m r) = Done (e, res, cols) \<Longrightarrow> length (rows res) \<le> 20"
  by (auto simp del: attempts.simps simp add: query_boats_def Let_def empty_frame_def
      dest: query_boats_cap_attempts split: if_splits)

lemma df_no_cols: "extract_cols_set ascii_db (lit ''df'') = {}"
  by code_simp

lemma f3_df_no_cols: "f3_extract_cols_set ascii_db (lit ''df'') = {}"
  by code_simp

lemma boats_cols: "get_display_columns (boats n) [] = [lit ''name'', lit ''price'']"
  by (simp add: get_display_columns_def first_present_def NAME_COLS_def PRICE_COLS_def
      YEAR_COLS_def boats_def lit_def Let_def)

lemma boat_fields:
  "f3_fields example_world
     [(lit ''name'', PStr (lit ''Azimut 50'')), (lit ''price'', PInt 450000)]
     [lit ''name'', lit ''price''] =
   ([BoatLine (lit ''name'') (lit ''Azimut 50''),
     BoatLine (lit ''price'') (euro @ format_f 0 False (to_double (450000 / 1000)) @ lit ''K'')], None)"
proof -
  have "f3_cell example_world (lit ''price'') (PInt 450000) =
      Inr (euro @ format_f 0 False (to_double (450000 / 1000)) @ lit ''K'')"
    using f3_cell_price [of "lit ''price''" "PInt 450000" example_world]
    by (simp add: price_is_price)
  moreover have "f3_cell example_world (lit ''name'') (PStr (lit ''Azimut 50'')) =
      Inr (lit ''Azimut 50'')"
    by (simp add: f3_cell_def f3_format_value_def f3_PRICE_COLS_def f3_YEAR_COLS_def lit_def)
  moreover have "lit ''name'' \<noteq> lit ''price''"
    by (simp add: lit_def)
  ultimately show ?thesis
    by simp
qed

lemma bullets_boats:
  "0 < n \<Longrightarrow> snd (bullets example_world (boats n) []) = None \<and>
     boat_count (fst (bullets example_world (boats n) [])) = n"
proof -
  assume n: "0 < n"
  have r: "\<forall>r \<in> set (named_rows (boats n)).
      snd (f3_fields example_world r [lit ''name'', lit ''price'']) = None"
    by (simp del: f3_fields.simps add: named_rows_def boats_def boat_fields)
  have l: "length (named_rows (boats n)) = n"
    by (simp add: named_rows_def boats_def)
  have e: "\<not> is_empty (boats n)"
    using n by (simp add: is_empty_def boats_def)
  from f3_boats_count [OF r, of 1] l
  have "snd (f3_boats example_world [lit ''name'', lit ''price''] 1 (named_rows (boats n))) = None \<and>
      boat_count (fst (f3_boats example_world [lit ''name'', lit ''price''] 1 (named_rows (boats n)))) = n"
    by simp
  then show ?thesis
    using e
    by (cases "f3_boats example_world [lit ''name'', lit ''price''] 1 (named_rows (boats n))")
       (simp add: bullets_def f3_same_display boats_cols Let_def boat_count_def)
qed

lemma eval_df:
  "eval_expr example_world [] (local_ns df) (lit ''df'') = Returns (DataFrame df)"
  by (simp add: example_world_def local_ns_def)

lemma f3_answer_boats:
  "0 < n \<Longrightarrow>
   f3_answer example_world (boats n) (lit ''df'') = Done (fst (bullets example_world (boats n) []))"
proof -
  assume n: "0 < n"
  have e: "eval_expr example_world []
      [(lit ''df'', Frame (boats n)), (lit ''pl'', Module (lit ''polars''))] (lit ''df'') =
      Returns (DataFrame (boats n))"
    using eval_df [of "boats n"] by (simp add: local_ns_def)
  have c: "f3_extract_cols (listing example_world) (unicode example_world) (lit ''df'') = []"
    by (simp add: f3_extract_cols_def example_world_def f3_df_no_cols)
  from bullets_boats [OF n] have "snd (bullets example_world (boats n) []) = None"
    by simp
  then show ?thesis
    by (cases "bullets example_world (boats n) []")
       (simp add: f3_answer_def e c normalise_def Let_def)
qed

lemma try_df:
  "try_expression example_world (boats n) (lit ''df'') =
     Done (Inr (lit ''df'', head 20 (boats n), [lit ''name'', lit ''price'']))"
proof -
  have c: "extract_cols (listing example_world) (unicode example_world) (lit ''df'') = []"
    by (simp add: extract_cols_def example_world_def df_no_cols)
  have k: "compile_expr example_world (lit ''df'') = None"
    by (simp add: example_world_def)
  show ?thesis
    by (simp add: try_expression_def k eval_df c normalise_def boats_cols Let_def)
qed

lemma query_boats_boats:
  "0 < n \<Longrightarrow>
   fst (query_boats example_world (boats n) a_query a_model 2) =
     Done (lit ''df'', head 20 (boats n), [lit ''name'', lit ''price''])"
proof -
  assume n: "0 < n"
  then have e: "\<not> is_empty (boats n)"
    by (simp add: is_empty_def boats_def)
  have m: "nat (2 + 1) = Suc 2"
    by simp
  have g: "fst (get_polars_expression example_world a_query s a_model None []) = lit ''df''"
    for s
    by (simp add: gpe_expr attempt_expr_def example_world_def clean_df)
  have d: "lit ''df'' \<noteq> []"
    by (simp add: lit_def)
  have "fst (attempts example_world (boats n) a_query a_model s (Suc 2) None [] []) =
      Done (lit ''df'', head 20 (boats n), [lit ''name'', lit ''price''])" for s
    using d by (subst attempts_Suc) (simp add: Let_def g try_df)
  with e show ?thesis
    unfolding query_boats_def Let_def m by simp
qed

text \<open>
  Claim C6 on filters3.py. For a dataset of 21 boats and the generated expression \<open>df\<close>,
  \<open>bullets\<close> prints all 21 boats, and so does the loop of \<open>main\<close>: nothing on this path
  takes the first 20 rows. On the same dataset and expression \<open>query_boats\<close> of app.py
  returns 20 rows.
\<close>

theorem bullets_prints_every_row:
  "length (rows (boats 21)) = 21 \<and>
   bullets example_world (boats 21) [] =
     (fst (bullets example_world (boats 21) []), None) \<and>
   boat_count (fst (bullets example_world (boats 21) [])) = 21 \<and>
   f3_answer example_world (boats 21) (lit ''df'') =
     Done (fst (bullets example_world (boats 21) [])) \<and>
   fst (query_boats example_world (boats 21) a_query a_model 2) =
     Done (lit ''df'', head 20 (boats 21), [lit ''name'', lit ''price'']) \<and>
   length (rows (head 20 (boats 21))) = 20"
proof -
  have p: "(0::nat) < 21"
    by simp
  have "length (rows (boats 21)) = 21"
    by (simp add: boats_def)
  moreover have "bullets example_world (boats 21) [] =
     (fst (bullets example_world (boats 21) []), None)"
    using bullets_boats [OF p] by (cases "bullets example_world (boats 21) []") simp
  moreover have "boat_count (fst (bullets example_world (boats 21) [])) = 21"
    using bullets_boats [OF p] by simp
  moreover have "f3_answer example_world (boats 21) (lit ''df'') =
     Done (fst (bullets example_world (boats 21) []))"
    by (rule f3_answer_boats [OF p])
  moreover have "fst (query_boats example_world (boats 21) a_query a_model 2) =
     Done (lit ''df'', head 20 (boats 21), [lit ''name'', lit ''price''])"
    by (rule query_boats_boats [OF p])
  moreover have "length (rows (head 20 (boats 21))) = 20"
    by (simp add: head_def boats_def)
  ultimately show ?thesis
    by blast
qed

end
